theory Spec2Isabelle
  imports Main
begin

unbundle bit_operations_syntax

section \<open>The Subversion remote-access binding (ra.c, util.c) as HOL functions\<close>

text \<open>
  The binding sits between three collaborators that are not part of its source: the
  CPython runtime (argument parsing, calls into Python callables, the interpreter's error
  indicator), APR (allocation pools) and libsvn\_ra (the remote repository). Each is
  modelled at the interface the binding uses:
  \<^item> Python values are the datatype \<open>pyobj\<close>; a function of the binding returns
    \<open>Returned v\<close>, or \<open>ReturnedNULL\<close> (the C function returns \<open>NULL\<close>, which
    the interpreter takes as failure), or \<open>Undefined\<close> where the C code has undefined
    behaviour (a store through a value that is no address, a dereference of \<open>NULL\<close>
    or of a value that is no object);
  \<^item> the local variables of a C function are a store \<open>locals\<close> from variable names to C
    values; a variable declared without initialiser starts with the content \<open>uninit\<close>
    of the environment, which is arbitrary;
  \<^item> the effects (pools created and destroyed, Python calls made, libsvn calls made) are
    appended to the \<open>trace\<close> of the \<open>world\<close>, which also holds the interpreter's error
    indicator \<open>pyerr\<close>;
  \<^item> what the remote repository answers is read from the environment (\<open>sv_\<dots>\<close> fields).
\<close>

subsection \<open>Python objects and C values\<close>

datatype pyobj =
    PyNone
  | PyStr string
  | PyInt int
  | PyBool bool
  | PyTuple "pyobj list"
  | PyList "pyobj list"
  | PyDict "(pyobj \<times> pyobj) list"
  | PyUser nat
  | SubversionException int string
  | ReporterObject nat nat
  | EditorObject string nat nat

datatype cval =
    CString string
  | CNull
  | CLong int
  | CInt int
  | CUChar int
  | CObject pyobj
  | CHash "(string \<times> cval) list"
  | CByteOver int cval

type_synonym locals = "string \<Rightarrow> cval"

datatype pyresult = PyReturn pyobj | PyRaise string

datatype ret = Returned pyobj | ReturnedNULL | Undefined

datatype svn_error = SvnError int string

datatype svn_node_kind = svn_node_none | svn_node_file | svn_node_dir | svn_node_unknown

fun node_kind_code :: "svn_node_kind \<Rightarrow> int" where
  "node_kind_code svn_node_none = 0"
| "node_kind_code svn_node_file = 1"
| "node_kind_code svn_node_dir = 2"
| "node_kind_code svn_node_unknown = 3"

record svn_dirent =
  dirent_kind :: svn_node_kind
  dirent_size :: int
  dirent_has_props :: bool
  dirent_created_rev :: int
  dirent_time :: int
  dirent_last_author :: "string option"

record svn_lock =
  lock_path :: string
  lock_token :: string
  lock_owner :: string
  lock_comment :: "string option"
  lock_is_dav_comment :: bool
  lock_creation_date :: int
  lock_expiration_date :: int

record svn_log_changed_path =
  action :: char
  copyfrom_path :: "string option"
  copyfrom_rev :: int

record log_entry =
  log_changed_paths :: "(string \<times> svn_log_changed_path) list option"
  log_revision :: int
  log_author :: "string option"
  log_date :: "string option"
  log_message :: "string option"

text \<open>The revision property names of \<open>svn_props.h\<close>.\<close>

definition SVN_PROP_REVISION_LOG :: string where
  "SVN_PROP_REVISION_LOG = ''svn:log''"

definition SVN_PROP_REVISION_AUTHOR :: string where
  "SVN_PROP_REVISION_AUTHOR = ''svn:author''"

definition SVN_PROP_REVISION_DATE :: string where
  "SVN_PROP_REVISION_DATE = ''svn:date''"

subsection \<open>The environment and the world\<close>

datatype event =
    PoolCreate nat "nat option"
  | PoolDestroy nat
  | PyCall pyobj "pyobj list"
  | PyMethod pyobj string "pyobj list"
  | SvnCall string "cval list"

record world =
  next_pool :: nat
  trace :: "event list"
  pyerr :: "string option"

record environ =
  python :: "nat \<Rightarrow> string \<Rightarrow> pyobj list \<Rightarrow> pyresult"
  uninit :: locals
  apr_create_status :: int
  object_alloc_fails :: bool
  progress_reports :: "(int \<times> int) list"
  sv_get_dir2 :: "string \<Rightarrow> int \<Rightarrow> int \<Rightarrow>
     svn_error + ((string \<times> svn_dirent) list option \<times> int \<times> (string \<times> string) list option)"
  sv_check_path :: "string \<Rightarrow> int \<Rightarrow> svn_error + svn_node_kind"
  sv_get_uuid :: "svn_error + string"
  sv_lock_path :: "string \<Rightarrow> svn_error + svn_lock"
  sv_lock :: "svn_error option"
  sv_get_lock :: "string \<Rightarrow> svn_error + svn_lock option"
  sv_get_locks :: "string \<Rightarrow> svn_error + (string \<times> svn_lock) list"
  sv_get_log :: "string list option \<Rightarrow> int \<Rightarrow> int \<Rightarrow> int \<Rightarrow> svn_error + log_entry list"
  sv_get_commit_editor2 :: "svn_error + nat"
  sv_do_update :: "svn_error + nat"
  sv_reporter :: "string \<Rightarrow> svn_error option"
  sv_editor :: "string \<Rightarrow> svn_error option"
  sv_txdelta_send_stream :: "svn_error + string"

record RemoteAccessObject =
  ra_url :: pyobj
  ra_pool :: nat
  progress_func :: pyobj

record ReporterObj =
  report_baton :: nat
  reporter_pool :: nat

record EditorObj =
  editor_baton :: nat
  editor_pool :: nat

definition emit :: "event \<Rightarrow> world \<Rightarrow> world" where
  "emit e w = w\<lparr>trace := trace w @ [e]\<rparr>"

subsection \<open>CPython: argument parsing\<close>

text \<open>
  \<open>PyArg_ParseTuple(args, format, targets...)\<close>: the argument count is checked against
  the format first; then each supplied argument is converted as its format unit says and
  stored through the next target. A target is \<open>Ref x\<close> for \<open>&x\<close>; \<open>Wild v\<close> is a
  value \<open>v\<close> passed where an address is expected, and a store through it, like a store
  when the targets have run out, is undefined. A failed conversion leaves the variables
  stored so far. \<open>RefInt x\<close> is \<open>&x\<close> for a variable declared \<open>int x\<close>: the unit
  \<open>b\<close> stores one byte there, and the variable then holds \<open>CByteOver b old\<close>, that byte
  followed by the three bytes of what it held before.
\<close>

datatype target = Ref string | Wild cval | RefInt string

definition store_in_int :: "cval \<Rightarrow> cval \<Rightarrow> cval" where
  "store_in_int old v = (case v of CUChar b \<Rightarrow> CByteOver b old | _ \<Rightarrow> v)"

datatype parse = ParseOk locals | ParseFail string locals | ParseUB

definition LONG_MAX :: int where "LONG_MAX = 2 ^ 63 - 1"
definition INT_MAX :: int where "INT_MAX = 2 ^ 31 - 1"

fun as_integer :: "pyobj \<Rightarrow> int option" where
  "as_integer (PyInt i) = Some i"
| "as_integer (PyBool b) = Some (if b then 1 else 0)"
| "as_integer _ = None"

definition convert_arg :: "char \<Rightarrow> pyobj \<Rightarrow> string + cval" where
  "convert_arg c a =
     (if c = CHR ''s'' then
        (case a of PyStr s \<Rightarrow> if CHR 0x00 \<in> set s then Inl ''TypeError'' else Inr (CString s)
         | _ \<Rightarrow> Inl ''TypeError'')
      else if c = CHR ''z'' then
        (case a of PyStr s \<Rightarrow> if CHR 0x00 \<in> set s then Inl ''TypeError'' else Inr (CString s)
         | PyNone \<Rightarrow> Inr CNull
         | _ \<Rightarrow> Inl ''TypeError'')
      else if c = CHR ''l'' then
        (case as_integer a of None \<Rightarrow> Inl ''TypeError''
         | Some i \<Rightarrow> if - LONG_MAX - 1 \<le> i \<and> i \<le> LONG_MAX then Inr (CLong i)
                     else Inl ''OverflowError'')
      else if c = CHR ''i'' then
        (case as_integer a of None \<Rightarrow> Inl ''TypeError''
         | Some i \<Rightarrow> if - INT_MAX - 1 \<le> i \<and> i \<le> INT_MAX then Inr (CInt i)
                     else Inl ''OverflowError'')
      else if c = CHR ''b'' then
        (case as_integer a of None \<Rightarrow> Inl ''TypeError''
         | Some i \<Rightarrow> if 0 \<le> i \<and> i \<le> 255 then Inr (CUChar i) else Inl ''OverflowError'')
      else if c = CHR ''O'' then Inr (CObject a)
      else Inl ''SystemError'')"

definition fmt_min :: "string \<Rightarrow> nat" where
  "fmt_min f = length (takeWhile (\<lambda>c. c \<noteq> CHR ''|'') f)"

definition fmt_max :: "string \<Rightarrow> nat" where
  "fmt_max f = length (filter (\<lambda>c. c \<noteq> CHR ''|'') f)"

fun store_args :: "string \<Rightarrow> pyobj list \<Rightarrow> target list \<Rightarrow> locals \<Rightarrow> parse" where
  "store_args [] args ts l = ParseOk l"
| "store_args (c # f) args ts l =
     (if c = CHR ''|'' then store_args f args ts l
      else case args of
        [] \<Rightarrow> ParseOk l
      | a # args' \<Rightarrow>
          (case convert_arg c a of
             Inl exc \<Rightarrow> ParseFail exc l
           | Inr v \<Rightarrow>
               (case ts of
                  [] \<Rightarrow> ParseUB
                | Wild p # ts' \<Rightarrow> ParseUB
                | Ref x # ts' \<Rightarrow> store_args f args' ts' (l(x := v))
                | RefInt x # ts' \<Rightarrow> store_args f args' ts' (l(x := store_in_int (l x) v)))))"

definition PyArg_ParseTuple :: "pyobj list \<Rightarrow> string \<Rightarrow> target list \<Rightarrow> locals \<Rightarrow> parse" where
  "PyArg_ParseTuple args f ts l =
     (if length args < fmt_min f \<or> fmt_max f < length args then ParseFail ''TypeError'' l
      else store_args f args ts l)"

text \<open>
  \<open>PyArg_ParseTupleAndKeywords(args, kwargs, format, kwnames, targets...)\<close>: the
  parameter at position \<open>i\<close> is \<open>args[i]\<close> when that many positional arguments were
  passed, the keyword argument named \<open>kwnames[i]\<close> otherwise. The call fails when there
  are more arguments than names, when a parameter is given by position and by name, when
  a keyword is no name of the list, or when a parameter before \<open>|\<close> is missing; a missing
  optional parameter leaves its variable and skips its target.
\<close>

definition kw_slots :: "pyobj list \<Rightarrow> (pyobj \<times> pyobj) list \<Rightarrow> string list \<Rightarrow> pyobj option list" where
  "kw_slots args kwargs kwnames =
     map (\<lambda>i. if i < length args then Some (args ! i) else map_of kwargs (PyStr (kwnames ! i)))
       [0..<length kwnames]"

fun store_slots :: "string \<Rightarrow> bool \<Rightarrow> pyobj option list \<Rightarrow> target list \<Rightarrow> locals \<Rightarrow> parse" where
  "store_slots [] opt slots ts l = ParseOk l"
| "store_slots (c # f) opt slots ts l =
     (if c = CHR ''|'' then store_slots f True slots ts l
      else case slots of
        [] \<Rightarrow> ParseOk l
      | None # slots' \<Rightarrow>
          (if opt then store_slots f opt slots' (tl ts) l else ParseFail ''TypeError'' l)
      | Some a # slots' \<Rightarrow>
          (case convert_arg c a of
             Inl exc \<Rightarrow> ParseFail exc l
           | Inr v \<Rightarrow>
               (case ts of
                  [] \<Rightarrow> ParseUB
                | Wild p # ts' \<Rightarrow> ParseUB
                | Ref x # ts' \<Rightarrow> store_slots f opt slots' ts' (l(x := v))
                | RefInt x # ts' \<Rightarrow>
                    store_slots f opt slots' ts' (l(x := store_in_int (l x) v)))))"

definition PyArg_ParseTupleAndKeywords ::
  "pyobj list \<Rightarrow> (pyobj \<times> pyobj) list \<Rightarrow> string \<Rightarrow> string list \<Rightarrow> target list \<Rightarrow> locals \<Rightarrow> parse" where
  "PyArg_ParseTupleAndKeywords args kwargs f kwnames ts l =
     (if length kwnames < length args + length kwargs
         \<or> list_ex (\<lambda>name. map_of kwargs (PyStr name) \<noteq> None) (take (length args) kwnames)
         \<or> list_ex (\<lambda>k. k \<notin> PyStr ` set kwnames) (map fst kwargs)
      then ParseFail ''TypeError'' l
      else store_slots f False (kw_slots args kwargs kwnames) ts l)"

subsection \<open>CPython: dictionaries, calls\<close>

fun PyDict_SetItem :: "(pyobj \<times> pyobj) list \<Rightarrow> pyobj \<Rightarrow> pyobj \<Rightarrow> (pyobj \<times> pyobj) list" where
  "PyDict_SetItem [] k v = [(k, v)]"
| "PyDict_SetItem ((k', v') # d) k v =
     (if k' = k then (k, v) # d else (k', v') # PyDict_SetItem d k v)"

definition PyDict_SetItemString ::
  "(pyobj \<times> pyobj) list \<Rightarrow> string \<Rightarrow> pyobj \<Rightarrow> (pyobj \<times> pyobj) list" where
  "PyDict_SetItemString d key v = PyDict_SetItem d (PyStr key) v"

text \<open>
  \<open>Py_BuildValue(format, values...)\<close>. The values travel as variadic arguments: an
  integer of any width fills one slot and is read back at the width of the format unit
  (\<open>i\<close>, \<open>b\<close> and \<open>c\<close> read an \<open>int\<close>, so a \<open>long\<close> keeps its low 32 bits);
  a string unit that finds an integer in its slot takes it for an address, which is
  \<open>NULL\<close> (giving \<open>None\<close>) for 0 and cannot be read otherwise; an integer unit that finds
  an address reads 0 for \<open>NULL\<close> and a number the model does not know otherwise. What
  cannot be read is \<open>None\<close> at the HOL level: the behaviour is undefined. Values
  beyond the format are not looked at.
\<close>

fun slot_integer :: "cval \<Rightarrow> int option" where
  "slot_integer (CLong i) = Some i"
| "slot_integer (CInt i) = Some i"
| "slot_integer (CUChar i) = Some i"
| "slot_integer CNull = Some 0"
| "slot_integer _ = None"

definition long_as_int :: "int \<Rightarrow> int" where
  "long_as_int x = (x + 2 ^ 31) mod 2 ^ 32 - 2 ^ 31"

definition build_item :: "char \<Rightarrow> cval \<Rightarrow> pyobj option" where
  "build_item c v =
     (if c = CHR ''s'' \<or> c = CHR ''z'' then
        (case v of
           CString s \<Rightarrow> Some (PyStr s)
         | CNull \<Rightarrow> Some PyNone
         | _ \<Rightarrow> (if slot_integer v = Some 0 then Some PyNone else None))
      else if c = CHR ''i'' \<or> c = CHR ''b'' then
        map_option (\<lambda>i. PyInt (long_as_int i)) (slot_integer v)
      else if c = CHR ''l'' then
        map_option PyInt (slot_integer v)
      else if c = CHR ''c'' then
        map_option (\<lambda>i. PyStr [char_of (long_as_int i)]) (slot_integer v)
      else if c = CHR ''O'' then
        (case v of CObject ob \<Rightarrow> Some ob | _ \<Rightarrow> None)
      else None)"

fun build_items :: "string \<Rightarrow> cval list \<Rightarrow> pyobj list option" where
  "build_items [] vs = Some []"
| "build_items (c # f) [] = None"
| "build_items (c # f) (v # vs) =
     (case build_item c v of
        None \<Rightarrow> None
      | Some ob \<Rightarrow> map_option ((#) ob) (build_items f vs))"

definition Py_BuildValue :: "string \<Rightarrow> cval list \<Rightarrow> pyobj option" where
  "Py_BuildValue f vs =
     (if f = [] then Some PyNone
      else if hd f = CHR ''('' \<and> last f = CHR '')'' then
        map_option PyTuple (build_items (butlast (tl f)) vs)
      else if length f = 1 then
        map_option hd (build_items f vs)
      else map_option PyTuple (build_items f vs))"

text \<open>
  A call into Python. \<open>PyObject_CallFunction(fn, format, values...)\<close> and
  \<open>PyObject_CallMethod(self, name, format, values...)\<close> build the arguments with
  \<open>Py_BuildValue\<close>; a \<open>NULL\<close> format (\<open>None\<close> here) gives no arguments, a built
  value that is no tuple is the single argument. Only user objects (\<open>PyUser\<close>) are
  callable or carry the methods the binding calls; what they do is the environment's
  \<open>python\<close>. A raised exception sets the error indicator and the C call returns
  \<open>NULL\<close>.
\<close>

datatype called = CallReturned pyobj | CallNULL | CallUndefined

definition call_args :: "string option \<Rightarrow> cval list \<Rightarrow> pyobj list option" where
  "call_args format vs =
     (case format of
        None \<Rightarrow> Some []
      | Some f \<Rightarrow>
          (if f = [] then Some []
           else case Py_BuildValue f vs of
                  None \<Rightarrow> None
                | Some (PyTuple items) \<Rightarrow> Some items
                | Some ob \<Rightarrow> Some [ob]))"

definition call_python :: "environ \<Rightarrow> pyobj \<Rightarrow> string \<Rightarrow> pyobj list \<Rightarrow> pyresult" where
  "call_python E callee meth args =
     (case callee of
        PyUser n \<Rightarrow> python E n meth args
      | _ \<Rightarrow> PyRaise (if meth = [] then ''TypeError'' else ''AttributeError''))"

definition PyObject_CallFunction ::
  "environ \<Rightarrow> pyobj \<Rightarrow> string option \<Rightarrow> cval list \<Rightarrow> world \<Rightarrow> called \<times> world" where
  "PyObject_CallFunction E fn format vs w =
     (case call_args format vs of
        None \<Rightarrow> (CallUndefined, w)
      | Some args \<Rightarrow>
          (case call_python E fn [] args of
             PyReturn v \<Rightarrow> (CallReturned v, emit (PyCall fn args) w)
           | PyRaise exc \<Rightarrow> (CallNULL, (emit (PyCall fn args) w)\<lparr>pyerr := Some exc\<rparr>)))"

definition PyObject_CallMethod ::
  "environ \<Rightarrow> pyobj \<Rightarrow> string \<Rightarrow> string option \<Rightarrow> cval list \<Rightarrow> world \<Rightarrow> called \<times> world" where
  "PyObject_CallMethod E self meth format vs w =
     (case call_args format vs of
        None \<Rightarrow> (CallUndefined, w)
      | Some args \<Rightarrow>
          (case call_python E self meth args of
             PyReturn v \<Rightarrow> (CallReturned v, emit (PyMethod self meth args) w)
           | PyRaise exc \<Rightarrow> (CallNULL, (emit (PyMethod self meth args) w)\<lparr>pyerr := Some exc\<rparr>)))"

text \<open>
  \<open>PyString_AsString\<close>: the text of a string object; \<open>NULL\<close> with \<open>TypeError\<close> set
  for another object; undefined on what is no object (\<open>None\<close> at the HOL level).
  \<open>PyDict_GetItemString\<close> gives \<open>NULL\<close> for a missing key and for what is no dictionary.
\<close>

definition PyString_AsString :: "cval \<Rightarrow> world \<Rightarrow> (cval \<times> world) option" where
  "PyString_AsString v w =
     (case v of
        CObject (PyStr s) \<Rightarrow> Some (CString s, w)
      | CObject ob \<Rightarrow> Some (CNull, w\<lparr>pyerr := Some ''TypeError''\<rparr>)
      | _ \<Rightarrow> None)"

definition PyDict_GetItemString :: "pyobj \<Rightarrow> string \<Rightarrow> cval" where
  "PyDict_GetItemString p key =
     (case p of
        PyDict d \<Rightarrow> (case map_of d (PyStr key) of None \<Rightarrow> CNull | Some v \<Rightarrow> CObject v)
      | _ \<Rightarrow> CNull)"

text \<open>
  \<open>PyLong_AsLong\<close>: the value of an integer object, or \<open>-1\<close> with \<open>TypeError\<close> set.
\<close>

definition PyLong_AsLong :: "pyobj \<Rightarrow> world \<Rightarrow> int \<times> world" where
  "PyLong_AsLong ob w =
     (case as_integer ob of
        Some i \<Rightarrow> (i, w)
      | None \<Rightarrow> (- 1, w\<lparr>pyerr := Some ''TypeError''\<rparr>))"

text \<open>
  \<open>PyObject_New\<close> gives \<open>NULL\<close> when the interpreter cannot allocate the object.
\<close>

definition PyObject_New :: "environ \<Rightarrow> pyobj \<Rightarrow> world \<Rightarrow> pyobj option \<times> world" where
  "PyObject_New E ob w =
     (if object_alloc_fails E then (None, w\<lparr>pyerr := Some ''MemoryError''\<rparr>) else (Some ob, w))"

subsection \<open>APR: hash tables\<close>

text \<open>
  \<open>apr_hash_set(ht, key, klen, val)\<close> stores \<open>val\<close> under \<open>key\<close>; a \<open>NULL\<close> value
  deletes the key. The table is kept as a list, in the order the keys were first set.
\<close>

fun apr_hash_set :: "(string \<times> cval) list \<Rightarrow> string \<Rightarrow> cval \<Rightarrow> (string \<times> cval) list" where
  "apr_hash_set [] key val = (if val = CNull then [] else [(key, val)])"
| "apr_hash_set ((key', val') # ht) key val =
     (if key' = key then (if val = CNull then ht else (key, val) # ht)
      else (key', val') # apr_hash_set ht key val)"

subsection \<open>util.c\<close>

text \<open>\<open>Pool\<close>: \<open>apr_pool_create\<close>, with the status it returns taken from the environment.\<close>

definition Pool :: "environ \<Rightarrow> nat option \<Rightarrow> world \<Rightarrow> nat option \<times> world" where
  "Pool E parent w =
     (if apr_create_status E \<noteq> 0 then (None, w\<lparr>pyerr := Some ''Exception''\<rparr>)
      else (Some (next_pool w),
            emit (PoolCreate (next_pool w) parent) (w\<lparr>next_pool := Suc (next_pool w)\<rparr>)))"

definition apr_pool_destroy :: "nat \<Rightarrow> world \<Rightarrow> world" where
  "apr_pool_destroy p w = emit (PoolDestroy p) w"

text \<open>\<open>PyErr_SetSubversionException\<close> has an empty body in the source.\<close>

definition PyErr_SetSubversionException :: "svn_error \<Rightarrow> world \<Rightarrow> world" where
  "PyErr_SetSubversionException error w = w"

definition check_error :: "svn_error option \<Rightarrow> world \<Rightarrow> bool \<times> world" where
  "check_error error w =
     (case error of
        Some e \<Rightarrow> (False, PyErr_SetSubversionException e w)
      | None \<Rightarrow> (True, w))"

text \<open>
  The macro \<open>RUN_SVN_WITH_POOL(pool, cmd)\<close>: when \<open>cmd\<close> gave an error the pool is
  destroyed and the function returns \<open>NULL\<close>; otherwise the function goes on (\<open>cont\<close>)
  with what \<open>cmd\<close> wrote through its result parameters.
\<close>

definition RUN_SVN_WITH_POOL ::
  "nat \<Rightarrow> svn_error + 'a \<Rightarrow> world \<Rightarrow> ('a \<Rightarrow> world \<Rightarrow> ret \<times> world) \<Rightarrow> ret \<times> world" where
  "RUN_SVN_WITH_POOL pool cmd w cont =
     (case cmd of
        Inl err \<Rightarrow> (ReturnedNULL, apr_pool_destroy pool (snd (check_error (Some err) w)))
      | Inr out \<Rightarrow> cont out (snd (check_error None w)))"

text \<open>\<open>py_svn_error\<close> returns \<open>NULL\<close>, that is no error, in the source.\<close>

definition py_svn_error :: "svn_error option" where
  "py_svn_error = None"

definition prop_hash_to_dict ::
  "environ \<Rightarrow> (string \<times> string) list option \<Rightarrow> world \<Rightarrow> pyobj option \<times> world" where
  "prop_hash_to_dict E props w =
     (case props of
        None \<Rightarrow> (Some PyNone, w)
      | Some ps \<Rightarrow>
          (case Pool E None w of
             (None, w1) \<Rightarrow> (None, w1)
           | (Some pool, w1) \<Rightarrow>
               (Some (PyDict (foldl (\<lambda>d (key, val). PyDict_SetItemString d key (PyStr val)) [] ps)),
                apr_pool_destroy pool w1)))"

subsection \<open>ra.c: progress notification and the calls into libsvn\_ra\<close>

definition py_progress_func :: "environ \<Rightarrow> int \<Rightarrow> int \<Rightarrow> pyobj \<Rightarrow> world \<Rightarrow> world" where
  "py_progress_func E progress total' fn w =
     (if fn = PyNone then w
      else snd (PyObject_CallFunction E fn (Some ''ll'') [CLong progress, CLong total'] w))"

text \<open>
  A call into libsvn\_ra on a session: the call is recorded, and while it talks to the
  server the transport reports progress through the session's callback
  (\<open>callbacks2->progress_func = py_progress_func\<close>, its baton the session's
  \<open>progress_func\<close>), once for each report of the environment.
\<close>

definition svn_ra_call ::
  "environ \<Rightarrow> RemoteAccessObject \<Rightarrow> string \<Rightarrow> cval list \<Rightarrow> world \<Rightarrow> world" where
  "svn_ra_call E ra name cargs w =
     foldl (\<lambda>w' (progress, total'). py_progress_func E progress total' (progress_func ra) w')
       (emit (SvnCall name cargs) w) (progress_reports E)"

subsection \<open>ra.c: \<open>ra_get_dir\<close>\<close>

text \<open>
  One directory entry: a field is set when its bit of \<open>dirent_fields\<close> is set.
  \<open>PyString_FromString\<close> on a \<open>NULL\<close> author is undefined (\<open>None\<close> here).
\<close>

definition py_dirent_of :: "int \<Rightarrow> svn_dirent \<Rightarrow> (pyobj \<times> pyobj) list option" where
  "py_dirent_of dirent_fields dirent =
     (let d0 = [];
          d1 = (if dirent_fields AND 0x1 \<noteq> 0
                then PyDict_SetItemString d0 ''kind'' (PyInt (node_kind_code (dirent_kind dirent)))
                else d0);
          d2 = (if dirent_fields AND 0x2 \<noteq> 0
                then PyDict_SetItemString d1 ''size'' (PyInt (dirent_size dirent))
                else d1);
          d3 = (if dirent_fields AND 0x4 \<noteq> 0
                then PyDict_SetItemString d2 ''has_props'' (PyBool (dirent_has_props dirent))
                else d2);
          d4 = (if dirent_fields AND 0x8 \<noteq> 0
                then PyDict_SetItemString d3 ''created_rev'' (PyInt (dirent_created_rev dirent))
                else d3);
          d5 = (if dirent_fields AND 0x10 \<noteq> 0
                then PyDict_SetItemString d4 ''time'' (PyInt (dirent_time dirent))
                else d4)
      in if dirent_fields AND 0x20 \<noteq> 0
         then (case dirent_last_author dirent of
                 None \<Rightarrow> None
               | Some author \<Rightarrow> Some (PyDict_SetItemString d5 ''last_author'' (PyStr author)))
         else Some d5)"

fun py_dirents_loop ::
  "int \<Rightarrow> (string \<times> svn_dirent) list \<Rightarrow> (pyobj \<times> pyobj) list \<Rightarrow> (pyobj \<times> pyobj) list option" where
  "py_dirents_loop dirent_fields [] py_dirents = Some py_dirents"
| "py_dirents_loop dirent_fields ((key, dirent) # rest) py_dirents =
     (case py_dirent_of dirent_fields dirent of
        None \<Rightarrow> None
      | Some py_dirent \<Rightarrow>
          py_dirents_loop dirent_fields rest
            (PyDict_SetItemString py_dirents key (PyDict py_dirent)))"

definition ra_get_dir :: "environ \<Rightarrow> RemoteAccessObject \<Rightarrow> pyobj list \<Rightarrow> world \<Rightarrow> ret \<times> world" where
  "ra_get_dir E ra args w =
     (case PyArg_ParseTuple args ''s|li''
             [Ref ''path'', Ref ''revision'', Ref ''dirent_fields'']
             ((uninit E)(''revision'' := CLong (- 1), ''dirent_fields'' := CInt 0)) of
        ParseUB \<Rightarrow> (Undefined, w)
      | ParseFail exc l \<Rightarrow> (ReturnedNULL, w\<lparr>pyerr := Some exc\<rparr>)
      | ParseOk l \<Rightarrow>
          (case (l ''path'', l ''revision'', l ''dirent_fields'') of
             (CString path, CLong revision, CInt dirent_fields) \<Rightarrow>
               (case Pool E (Some (ra_pool ra)) w of
                  (None, w1) \<Rightarrow> (Undefined, w1)
                | (Some temp_pool, w1) \<Rightarrow>
                    (let w2 = svn_ra_call E ra ''svn_ra_get_dir2''
                                [CString path, CLong revision, CInt dirent_fields] w1
                     in case sv_get_dir2 E path revision dirent_fields of
                          Inl err \<Rightarrow>
                            (ReturnedNULL, apr_pool_destroy temp_pool (snd (check_error (Some err) w2)))
                        | Inr (dirents, fetch_rev, props) \<Rightarrow>
                            (case (case dirents of
                                     None \<Rightarrow> Some PyNone
                                   | Some ds \<Rightarrow> map_option PyDict (py_dirents_loop dirent_fields ds [])) of
                               None \<Rightarrow> (Undefined, w2)
                             | Some py_dirents \<Rightarrow>
                                 (case prop_hash_to_dict E props w2 of
                                    (None, w3) \<Rightarrow> (Undefined, w3)
                                  | (Some py_props, w3) \<Rightarrow>
                                      (case Py_BuildValue ''(OiO)''
                                              [CObject py_dirents, CLong fetch_rev, CObject py_props] of
                                         None \<Rightarrow> (Undefined, apr_pool_destroy temp_pool w3)
                                       | Some r \<Rightarrow> (Returned r, apr_pool_destroy temp_pool w3))))))
           | _ \<Rightarrow> (Undefined, w)))"

subsection \<open>ra.c: closing a file, as the driver of an edit and as its receiver\<close>

text \<open>
  \<open>py_cb_editor_close_file\<close> is the \<open>close_file\<close> entry of \<open>py_editor\<close>, the editor
  libsvn drives when the edit comes from the server: \<open>file_baton\<close> is the Python file
  handle, \<open>text_checksum\<close> what the server supplied (\<open>None\<close> for \<open>NULL\<close>).
\<close>

definition py_cb_editor_close_file ::
  "environ \<Rightarrow> pyobj \<Rightarrow> string option \<Rightarrow> world \<Rightarrow> (svn_error option \<times> world) option" where
  "py_cb_editor_close_file E file_baton text_checksum w =
     (case (if text_checksum \<noteq> None
            then PyObject_CallMethod E file_baton ''close'' None [] w
            else PyObject_CallMethod E file_baton ''close'' (Some ''s'')
                   [case text_checksum of None \<Rightarrow> CNull | Some c \<Rightarrow> CString c] w) of
        (CallUndefined, w1) \<Rightarrow> None
      | (CallNULL, w1) \<Rightarrow> Some (py_svn_error, w1)
      | (CallReturned ret, w1) \<Rightarrow> Some (None, w1))"

text \<open>
  \<open>py_file_editor_close\<close> is the \<open>close\<close> method of the binding's own file handle,
  which passes the call on to the editor of libsvn.
\<close>

definition py_file_editor_close :: "environ \<Rightarrow> EditorObj \<Rightarrow> pyobj list \<Rightarrow> world \<Rightarrow> ret \<times> world" where
  "py_file_editor_close E editor args w =
     (case PyArg_ParseTuple args ''|z'' [Ref ''c_checksum''] ((uninit E)(''c_checksum'' := CNull)) of
        ParseUB \<Rightarrow> (Undefined, w)
      | ParseFail exc l \<Rightarrow> (ReturnedNULL, w\<lparr>pyerr := Some exc\<rparr>)
      | ParseOk l \<Rightarrow>
          (case check_error (sv_editor E ''close_file'')
                  (emit (SvnCall ''close_file'' [CLong (int (editor_baton editor)), l ''c_checksum'']) w) of
             (False, w1) \<Rightarrow> (ReturnedNULL, w1)
           | (True, w1) \<Rightarrow> (Returned PyNone, w1)))"

subsection \<open>ra.c, util.c: locks\<close>

definition pyify_lock :: "svn_lock option \<Rightarrow> pyobj" where
  "pyify_lock lock = PyNone"

text \<open>
  \<open>wrap_lock\<close> dereferences \<open>lock\<close>; its format has six units for seven values.
\<close>

definition c_string_opt :: "string option \<Rightarrow> cval" where
  "c_string_opt s = (case s of None \<Rightarrow> CNull | Some t \<Rightarrow> CString t)"

definition wrap_lock :: "svn_lock option \<Rightarrow> pyobj option" where
  "wrap_lock lock =
     (case lock of
        None \<Rightarrow> None
      | Some lk \<Rightarrow>
          Py_BuildValue ''(zzzbzz)''
            [CString (lock_path lk), CString (lock_token lk), CString (lock_owner lk),
             c_string_opt (lock_comment lk), CInt (if lock_is_dav_comment lk then 1 else 0),
             CLong (lock_creation_date lk), CLong (lock_expiration_date lk)])"

definition py_lock_func ::
  "environ \<Rightarrow> pyobj \<Rightarrow> string \<Rightarrow> int \<Rightarrow> svn_lock option \<Rightarrow> svn_error option \<Rightarrow> world
     \<Rightarrow> (svn_error option \<times> world) option" where
  "py_lock_func E baton path do_lock lock ra_err w =
     (let py_ra_err = (case ra_err of
                         None \<Rightarrow> PyNone
                       | Some (SvnError apr_err message) \<Rightarrow> SubversionException apr_err message)
      in case PyObject_CallFunction E baton (Some ''zbOO'')
                [CString path, CInt do_lock, CObject (pyify_lock lock), CObject py_ra_err] w of
           (CallUndefined, w1) \<Rightarrow> None
         | (CallNULL, w1) \<Rightarrow> Some (py_svn_error, w1)
         | (CallReturned ret, w1) \<Rightarrow> Some (None, w1))"

text \<open>
  The loop of \<open>ra_lock\<close> over \<open>path_revs\<close>: \<open>rev\<close> is allocated and filled, and
  the table is given \<open>PyString_AsString(v)\<close>. A key that is no string makes
  \<open>PyString_AsString(k)\<close> \<open>NULL\<close>, whose length \<open>apr_hash_set\<close> then takes; a table that
  is \<open>NULL\<close> cannot be set either (both \<open>None\<close> here).
\<close>

fun ra_lock_loop ::
  "(pyobj \<times> pyobj) list \<Rightarrow> (string \<times> cval) list option \<Rightarrow> world
     \<Rightarrow> ((string \<times> cval) list option \<times> world) option" where
  "ra_lock_loop [] hash_path_revs w = Some (hash_path_revs, w)"
| "ra_lock_loop ((k, v) # rest) hash_path_revs w =
     (let (rev', w1) = PyLong_AsLong v w
      in case PyString_AsString (CObject k) w1 of
           Some (CString key, w2) \<Rightarrow>
             (case PyString_AsString (CObject v) w2 of
                Some (val, w3) \<Rightarrow>
                  (case hash_path_revs of
                     None \<Rightarrow> None
                   | Some ht \<Rightarrow> ra_lock_loop rest (Some (apr_hash_set ht key val)) w3)
              | None \<Rightarrow> None)
         | _ \<Rightarrow> None)"

text \<open>
  \<open>svn_ra_lock\<close> of libsvn\_ra, from its documentation: each path of the table is locked
  on the server and \<open>lock_func\<close> is called for it with the lock or with the error of that
  path; an error that \<open>lock_func\<close> returns ends the call. The table must not be \<open>NULL\<close>.
\<close>

fun svn_ra_lock_paths ::
  "environ \<Rightarrow> (string \<times> cval) list \<Rightarrow> pyobj \<Rightarrow> world \<Rightarrow> (svn_error option \<times> world) option" where
  "svn_ra_lock_paths E [] lock_func w = Some (None, w)"
| "svn_ra_lock_paths E ((path, rev') # rest) lock_func w =
     (case (case sv_lock_path E path of
              Inl err \<Rightarrow> py_lock_func E lock_func path 1 None (Some err) w
            | Inr lock \<Rightarrow> py_lock_func E lock_func path 1 (Some lock) None w) of
        None \<Rightarrow> None
      | Some (Some err, w1) \<Rightarrow> Some (Some err, w1)
      | Some (None, w1) \<Rightarrow> svn_ra_lock_paths E rest lock_func w1)"

definition svn_ra_lock ::
  "environ \<Rightarrow> RemoteAccessObject \<Rightarrow> (string \<times> cval) list option \<Rightarrow> cval \<Rightarrow> cval \<Rightarrow> pyobj
     \<Rightarrow> world \<Rightarrow> (svn_error option \<times> world) option" where
  "svn_ra_lock E ra path_revs comment steal_lock lock_func w =
     (case path_revs of
        None \<Rightarrow> None
      | Some ht \<Rightarrow>
          (case sv_lock E of
             Some err \<Rightarrow>
               Some (Some err, svn_ra_call E ra ''svn_ra_lock'' [CHash ht, comment, steal_lock] w)
           | None \<Rightarrow>
               svn_ra_lock_paths E ht lock_func
                 (svn_ra_call E ra ''svn_ra_lock'' [CHash ht, comment, steal_lock] w)))"

text \<open>\<open>PyDict_Next\<close> walks the items of a dictionary and stops at once on anything else.\<close>

definition dict_items :: "pyobj \<Rightarrow> (pyobj \<times> pyobj) list" where
  "dict_items p = (case p of PyDict d \<Rightarrow> d | _ \<Rightarrow> [])"

text \<open>
  \<open>ra_lock\<close> declares \<open>int steal_lock\<close> and parses it with the unit \<open>b\<close>: only its
  first byte is stored, the rest keeps its uninitialised content.
\<close>

definition ra_lock :: "environ \<Rightarrow> RemoteAccessObject \<Rightarrow> pyobj list \<Rightarrow> world \<Rightarrow> ret \<times> world" where
  "ra_lock E ra args w =
     (case PyArg_ParseTuple args ''OsbO''
             [Ref ''path_revs'', Ref ''comment'', RefInt ''steal_lock'', Ref ''lock_func'']
             (uninit E) of
        ParseUB \<Rightarrow> (Undefined, w)
      | ParseFail exc l \<Rightarrow> (ReturnedNULL, w\<lparr>pyerr := Some exc\<rparr>)
      | ParseOk l \<Rightarrow>
          (case (l ''path_revs'', l ''lock_func'') of
             (CObject path_revs, CObject lock_func) \<Rightarrow>
               (case Pool E (Some (ra_pool ra)) w of
                  (None, w1) \<Rightarrow> (Undefined, w1)
                | (Some temp_pool, w1) \<Rightarrow>
                    (case ra_lock_loop (dict_items path_revs)
                            (if path_revs = PyNone then None else Some []) w1 of
                       None \<Rightarrow> (Undefined, w1)
                     | Some (hash_path_revs, w2) \<Rightarrow>
                         (case svn_ra_lock E ra hash_path_revs (l ''comment'') (l ''steal_lock'')
                                 lock_func w2 of
                            None \<Rightarrow> (Undefined, w2)
                          | Some (error, w3) \<Rightarrow>
                              (case check_error error w3 of
                                 (False, w4) \<Rightarrow> (ReturnedNULL, apr_pool_destroy temp_pool w4)
                               | (True, w4) \<Rightarrow> (ReturnedNULL, apr_pool_destroy temp_pool w4)))))
           | _ \<Rightarrow> (Undefined, w)))"

definition ra_get_lock :: "environ \<Rightarrow> RemoteAccessObject \<Rightarrow> pyobj list \<Rightarrow> world \<Rightarrow> ret \<times> world" where
  "ra_get_lock E ra args w =
     (case PyArg_ParseTuple args ''s'' [Ref ''path''] (uninit E) of
        ParseUB \<Rightarrow> (Undefined, w)
      | ParseFail exc l \<Rightarrow> (ReturnedNULL, w\<lparr>pyerr := Some exc\<rparr>)
      | ParseOk l \<Rightarrow>
          (case l ''path'' of
             CString path \<Rightarrow>
               (case Pool E (Some (ra_pool ra)) w of
                  (None, w1) \<Rightarrow> (Undefined, w1)
                | (Some temp_pool, w1) \<Rightarrow>
                    RUN_SVN_WITH_POOL temp_pool (sv_get_lock E path)
                      (svn_ra_call E ra ''svn_ra_get_lock'' [CString path] w1)
                      (\<lambda>lock w2.
                         (case wrap_lock lock of
                            None \<Rightarrow> (Undefined, apr_pool_destroy temp_pool w2)
                          | Some r \<Rightarrow> (Returned r, apr_pool_destroy temp_pool w2))))
           | _ \<Rightarrow> (Undefined, w)))"

definition ra_get_locks :: "environ \<Rightarrow> RemoteAccessObject \<Rightarrow> pyobj list \<Rightarrow> world \<Rightarrow> ret \<times> world" where
  "ra_get_locks E ra args w =
     (case PyArg_ParseTuple args ''s'' [Ref ''path''] (uninit E) of
        ParseUB \<Rightarrow> (Undefined, w)
      | ParseFail exc l \<Rightarrow> (ReturnedNULL, w\<lparr>pyerr := Some exc\<rparr>)
      | ParseOk l \<Rightarrow>
          (case l ''path'' of
             CString path \<Rightarrow>
               (case Pool E (Some (ra_pool ra)) w of
                  (None, w1) \<Rightarrow> (Undefined, w1)
                | (Some temp_pool, w1) \<Rightarrow>
                    (let w2 = svn_ra_call E ra ''svn_ra_get_locks'' [CString path] w1
                     in case sv_get_locks E path of
                          Inl err \<Rightarrow>
                            (ReturnedNULL, apr_pool_destroy temp_pool (snd (check_error (Some err) w2)))
                        | Inr hash_locks \<Rightarrow>
                            (Returned (PyDict (foldl (\<lambda>ret (key, lock).
                                                 PyDict_SetItemString ret key (pyify_lock (Some lock)))
                                               [] hash_locks)),
                             apr_pool_destroy temp_pool (snd (check_error None w2)))))
           | _ \<Rightarrow> (Undefined, w)))"

subsection \<open>ra.c, util.c: the history log\<close>

text \<open>
  \<open>string_list_to_apr_array\<close>: \<open>NULL\<close> for \<open>None\<close>, else one \<open>PyString_AsString\<close>
  for each item of the list; what is no list has no size to make the array with.
\<close>

fun strings_of_items :: "pyobj list \<Rightarrow> world \<Rightarrow> (cval list \<times> world) option" where
  "strings_of_items [] w = Some ([], w)"
| "strings_of_items (item # items) w =
     (case PyString_AsString (CObject item) w of
        None \<Rightarrow> None
      | Some (el, w1) \<Rightarrow>
          (case strings_of_items items w1 of
             None \<Rightarrow> None
           | Some (els, w2) \<Rightarrow> Some (el # els, w2)))"

definition string_list_to_apr_array :: "cval \<Rightarrow> world \<Rightarrow> (cval list option \<times> world) option" where
  "string_list_to_apr_array l w =
     (case l of
        CObject PyNone \<Rightarrow> Some (None, w)
      | CObject (PyList items) \<Rightarrow>
          (case strings_of_items items w of
             None \<Rightarrow> None
           | Some (els, w1) \<Rightarrow> Some (Some els, w1))
      | _ \<Rightarrow> None)"

fun changed_paths_loop ::
  "(string \<times> svn_log_changed_path) list \<Rightarrow> (pyobj \<times> pyobj) list \<Rightarrow> (pyobj \<times> pyobj) list option" where
  "changed_paths_loop [] py_changed_paths = Some py_changed_paths"
| "changed_paths_loop ((key, val) # rest) py_changed_paths =
     (case Py_BuildValue ''(czi)''
             [CUChar (of_char (action val)), c_string_opt (copyfrom_path val),
              CLong (copyfrom_rev val)] of
        None \<Rightarrow> None
      | Some t \<Rightarrow> changed_paths_loop rest (PyDict_SetItemString py_changed_paths key t))"

definition py_svn_log_wrapper ::
  "environ \<Rightarrow> pyobj \<Rightarrow> (string \<times> svn_log_changed_path) list option \<Rightarrow> int \<Rightarrow> string option
     \<Rightarrow> string option \<Rightarrow> string option \<Rightarrow> world \<Rightarrow> (svn_error option \<times> world) option" where
  "py_svn_log_wrapper E baton changed_paths revision author date message w =
     (case (case changed_paths of
              None \<Rightarrow> Some PyNone
            | Some cps \<Rightarrow> map_option PyDict (changed_paths_loop cps [])) of
        None \<Rightarrow> None
      | Some py_changed_paths \<Rightarrow>
          (let r0 = [];
               r1 = (case message of
                       Some m \<Rightarrow> PyDict_SetItemString r0 SVN_PROP_REVISION_LOG (PyStr m)
                     | None \<Rightarrow> r0);
               r2 = (case author of
                       Some a \<Rightarrow> PyDict_SetItemString r1 SVN_PROP_REVISION_AUTHOR (PyStr a)
                     | None \<Rightarrow> r1);
               r3 = (case date of
                       Some d \<Rightarrow> PyDict_SetItemString r2 SVN_PROP_REVISION_DATE (PyStr d)
                     | None \<Rightarrow> r2)
           in case PyObject_CallFunction E baton (Some ''OiO'')
                     [CObject py_changed_paths, CLong revision, CObject (PyDict r3)] w of
                (CallUndefined, w1) \<Rightarrow> None
              | (ret, w1) \<Rightarrow> Some (None, w1)))"

text \<open>
  \<open>svn_ra_get_log\<close> of libsvn\_ra, from its documentation: the server sends the entries
  of the revisions that qualify (the environment's \<open>sv_get_log\<close>, which has applied
  \<open>limit\<close>), the receiver is called once for each in order, and an error that the
  receiver returns ends the call. A path of the array must be a string.
\<close>

fun log_receiver_loop ::
  "environ \<Rightarrow> pyobj \<Rightarrow> log_entry list \<Rightarrow> world \<Rightarrow> (svn_error option \<times> world) option" where
  "log_receiver_loop E baton [] w = Some (None, w)"
| "log_receiver_loop E baton (e # es) w =
     (case py_svn_log_wrapper E baton (log_changed_paths e) (log_revision e) (log_author e)
             (log_date e) (log_message e) w of
        None \<Rightarrow> None
      | Some (Some err, w1) \<Rightarrow> Some (Some err, w1)
      | Some (None, w1) \<Rightarrow> log_receiver_loop E baton es w1)"

fun c_strings :: "cval list \<Rightarrow> string list option" where
  "c_strings [] = Some []"
| "c_strings (CString s # vs) = map_option ((#) s) (c_strings vs)"
| "c_strings (v # vs) = None"

definition svn_ra_get_log ::
  "environ \<Rightarrow> RemoteAccessObject \<Rightarrow> cval list option \<Rightarrow> int \<Rightarrow> int \<Rightarrow> int \<Rightarrow> int \<Rightarrow> int
     \<Rightarrow> pyobj \<Rightarrow> world \<Rightarrow> (svn_error option \<times> world) option" where
  "svn_ra_get_log E ra paths start end' limit discover_changed_paths strict_node_history
       receiver_baton w =
     (case (case paths of None \<Rightarrow> Some None | Some vs \<Rightarrow> map_option Some (c_strings vs)) of
        None \<Rightarrow> None
      | Some ps \<Rightarrow>
          (let w1 = svn_ra_call E ra ''svn_ra_get_log''
                      [CLong start, CLong end', CInt limit, CUChar discover_changed_paths,
                       CUChar strict_node_history] w
           in case sv_get_log E ps start end' limit of
                Inl err \<Rightarrow> Some (Some err, w1)
              | Inr entries \<Rightarrow> log_receiver_loop E receiver_baton entries w1))"

text \<open>
  \<open>ra_get_log\<close> returns \<open>NULL\<close> when \<open>PyArg_ParseTupleAndKeywords\<close> succeeds and goes
  on when it fails: the test is written without negation in the source.
\<close>

definition ra_get_log ::
  "environ \<Rightarrow> RemoteAccessObject \<Rightarrow> pyobj list \<Rightarrow> (pyobj \<times> pyobj) list \<Rightarrow> world \<Rightarrow> ret \<times> world" where
  "ra_get_log E ra args kwargs w =
     (case PyArg_ParseTupleAndKeywords args kwargs ''OOll|ibbO''
             [''callback'', ''paths'', ''start'', ''end'', ''limit'',
              ''discover_changed_paths'', ''strict_node_history'', ''revprops'']
             [Ref ''callback'', Ref ''paths'', Ref ''start'', Ref ''end'', Ref ''limit'',
              Ref ''discover_changed_paths'', Ref ''strict_node_history'', Ref ''revprops'']
             ((uninit E)(''limit'' := CInt 0, ''discover_changed_paths'' := CUChar 1,
                         ''strict_node_history'' := CUChar 1, ''revprops'' := CObject PyNone)) of
        ParseUB \<Rightarrow> (Undefined, w)
      | ParseOk l \<Rightarrow> (ReturnedNULL, w)
      | ParseFail exc l \<Rightarrow>
          (case Pool E None (w\<lparr>pyerr := Some exc\<rparr>) of
             (None, w1) \<Rightarrow> (Undefined, w1)
           | (Some temp_pool, w1) \<Rightarrow>
               (case string_list_to_apr_array (l ''paths'') w1 of
                  None \<Rightarrow> (Undefined, w1)
                | Some (paths, w2) \<Rightarrow>
                    (case (l ''callback'', l ''start'', l ''end'', l ''limit'',
                           l ''discover_changed_paths'', l ''strict_node_history'') of
                       (CObject callback, CLong start, CLong end', CInt limit,
                        CUChar discover_changed_paths, CUChar strict_node_history) \<Rightarrow>
                         (case svn_ra_get_log E ra paths start end' limit discover_changed_paths
                                 strict_node_history callback w2 of
                            None \<Rightarrow> (Undefined, w2)
                          | Some (None, w3) \<Rightarrow>
                              (Returned PyNone, apr_pool_destroy temp_pool (snd (check_error None w3)))
                          | Some (Some err, w3) \<Rightarrow>
                              (ReturnedNULL,
                               apr_pool_destroy temp_pool (snd (check_error (Some err) w3))))
                     | _ \<Rightarrow> (Undefined, w2)))))"

subsection \<open>ra.c: operations and the pools they create\<close>

definition ra_get_uuid :: "environ \<Rightarrow> RemoteAccessObject \<Rightarrow> world \<Rightarrow> ret \<times> world" where
  "ra_get_uuid E ra w =
     (case Pool E (Some (ra_pool ra)) w of
        (None, w1) \<Rightarrow> (Undefined, w1)
      | (Some temp_pool, w1) \<Rightarrow>
          RUN_SVN_WITH_POOL temp_pool (sv_get_uuid E) (svn_ra_call E ra ''svn_ra_get_uuid'' [] w1)
            (\<lambda>uuid w2. (Returned (PyStr uuid), apr_pool_destroy temp_pool w2)))"

definition ra_do_update :: "environ \<Rightarrow> RemoteAccessObject \<Rightarrow> pyobj list \<Rightarrow> world \<Rightarrow> ret \<times> world" where
  "ra_do_update E ra args w =
     (case PyArg_ParseTuple args ''lsbO''
             [Ref ''revision_to_update_to'', Ref ''update_target'', Ref ''recurse'',
              Ref ''update_editor''] (uninit E) of
        ParseUB \<Rightarrow> (Undefined, w)
      | ParseFail exc l \<Rightarrow> (ReturnedNULL, w\<lparr>pyerr := Some exc\<rparr>)
      | ParseOk l \<Rightarrow>
          (case Pool E (Some (ra_pool ra)) w of
             (None, w1) \<Rightarrow> (Undefined, w1)
           | (Some temp_pool, w1) \<Rightarrow>
               RUN_SVN_WITH_POOL temp_pool (sv_do_update E)
                 (svn_ra_call E ra ''svn_ra_do_update''
                    [l ''revision_to_update_to'', l ''update_target'', l ''recurse'',
                     l ''update_editor''] w1)
                 (\<lambda>report_baton w2.
                    (case PyObject_New E (ReporterObject report_baton temp_pool) w2 of
                       (None, w3) \<Rightarrow> (ReturnedNULL, w3)
                     | (Some ret, w3) \<Rightarrow> (Returned ret, w3)))))"

definition reporter_dealloc :: "ReporterObj \<Rightarrow> world \<Rightarrow> world" where
  "reporter_dealloc reporter w = apr_pool_destroy (reporter_pool reporter) w"

definition new_editor_object :: "environ \<Rightarrow> nat \<Rightarrow> nat \<Rightarrow> string \<Rightarrow> world \<Rightarrow> ret \<times> world" where
  "new_editor_object E baton pool type w =
     (case PyObject_New E (EditorObject type baton pool) w of
        (None, w1) \<Rightarrow> (ReturnedNULL, w1)
      | (Some obj, w1) \<Rightarrow> (Returned obj, w1))"

definition py_editor_dealloc :: "EditorObj \<Rightarrow> world \<Rightarrow> world" where
  "py_editor_dealloc editor w = apr_pool_destroy (editor_pool editor) w"

text \<open>
  \<open>txdelta_send_stream\<close> creates its pool in the declaration, parses into \<open>stream\<close> and
  \<open>handle\<close>, and reads \<open>handler\<close>.
\<close>

definition txdelta_send_stream :: "environ \<Rightarrow> pyobj list \<Rightarrow> world \<Rightarrow> ret \<times> world" where
  "txdelta_send_stream E args w =
     (case Pool E None w of
        (pool, w1) \<Rightarrow>
          (case PyArg_ParseTuple args ''OO'' [Ref ''stream'', Ref ''handle''] (uninit E) of
             ParseUB \<Rightarrow> (Undefined, w1)
           | ParseFail exc l \<Rightarrow> (ReturnedNULL, w1\<lparr>pyerr := Some exc\<rparr>)
           | ParseOk l \<Rightarrow>
               (case (pool, l ''stream'', l ''handler'') of
                  (Some p, CObject stream, CObject handler) \<Rightarrow>
                    (let w2 = emit (SvnCall ''svn_txdelta_send_stream'' [CObject stream, CObject handler]) w1
                     in case sv_txdelta_send_stream E of
                          Inl err \<Rightarrow>
                            (ReturnedNULL, apr_pool_destroy p (snd (check_error (Some err) w2)))
                        | Inr digest \<Rightarrow>
                            (Returned (PyStr digest), apr_pool_destroy p (snd (check_error None w2))))
                | _ \<Rightarrow> (Undefined, w1))))"

text \<open>How often a pool has been destroyed so far.\<close>

definition released :: "nat \<Rightarrow> world \<Rightarrow> nat" where
  "released p w = length (filter (\<lambda>e. e = PoolDestroy p) (trace w))"

subsection \<open>ra.c: the reporter\<close>

definition c_lock_token :: "cval \<Rightarrow> world \<Rightarrow> (cval \<times> world) option" where
  "c_lock_token py_lock_token w =
     (if py_lock_token = CObject PyNone then Some (CNull, w)
      else PyString_AsString py_lock_token w)"

definition reporter_set_path :: "environ \<Rightarrow> ReporterObj \<Rightarrow> pyobj list \<Rightarrow> world \<Rightarrow> ret \<times> world" where
  "reporter_set_path E reporter args w =
     (case PyArg_ParseTuple args ''slb|z''
             [Ref ''path'', Ref ''revision'', Ref ''start_empty'', Ref ''lock_token'']
             ((uninit E)(''lock_token'' := CObject PyNone)) of
        ParseUB \<Rightarrow> (Undefined, w)
      | ParseFail exc l \<Rightarrow> (ReturnedNULL, w\<lparr>pyerr := Some exc\<rparr>)
      | ParseOk l \<Rightarrow>
          (case c_lock_token (l ''lock_token'') w of
             None \<Rightarrow> (Undefined, w)
           | Some (token, w1) \<Rightarrow>
               (case check_error (sv_reporter E ''set_path'')
                       (emit (SvnCall ''set_path''
                                [CLong (int (report_baton reporter)), l ''path'', l ''revision'',
                                 l ''start_empty'', token]) w1) of
                  (False, w2) \<Rightarrow> (ReturnedNULL, w2)
                | (True, w2) \<Rightarrow> (Returned PyNone, w2))))"

definition reporter_link_path :: "environ \<Rightarrow> ReporterObj \<Rightarrow> pyobj list \<Rightarrow> world \<Rightarrow> ret \<times> world" where
  "reporter_link_path E reporter args w =
     (case PyArg_ParseTuple args ''sslb|O''
             [Ref ''path'', Ref ''url'', Ref ''start_empty'', Ref ''lock_token'']
             ((uninit E)(''lock_token'' := CObject PyNone)) of
        ParseUB \<Rightarrow> (Undefined, w)
      | ParseFail exc l \<Rightarrow> (ReturnedNULL, w\<lparr>pyerr := Some exc\<rparr>)
      | ParseOk l \<Rightarrow>
          (case c_lock_token (l ''lock_token'') w of
             None \<Rightarrow> (Undefined, w)
           | Some (token, w1) \<Rightarrow>
               (case check_error (sv_reporter E ''link_path'')
                       (emit (SvnCall ''link_path''
                                [CLong (int (report_baton reporter)), l ''path'', l ''url'',
                                 l ''revision'', l ''start_empty'', token]) w1) of
                  (False, w2) \<Rightarrow> (ReturnedNULL, w2)
                | (True, w2) \<Rightarrow> (Returned PyNone, w2))))"

subsection \<open>ra.c: \<open>ra_check_path\<close>\<close>

text \<open>
  The second target of the parse is \<open>revision\<close> itself, not its address.
\<close>

definition ra_check_path :: "environ \<Rightarrow> RemoteAccessObject \<Rightarrow> pyobj list \<Rightarrow> world \<Rightarrow> ret \<times> world" where
  "ra_check_path E ra args w =
     (case PyArg_ParseTuple args ''sl'' [Ref ''path'', Wild (uninit E ''revision'')] (uninit E) of
        ParseUB \<Rightarrow> (Undefined, w)
      | ParseFail exc l \<Rightarrow> (ReturnedNULL, w\<lparr>pyerr := Some exc\<rparr>)
      | ParseOk l \<Rightarrow>
          (case (l ''path'', l ''revision'') of
             (CString path, CLong revision) \<Rightarrow>
               (case Pool E (Some (ra_pool ra)) w of
                  (None, w1) \<Rightarrow> (Undefined, w1)
                | (Some temp_pool, w1) \<Rightarrow>
                    RUN_SVN_WITH_POOL temp_pool (sv_check_path E path revision)
                      (svn_ra_call E ra ''svn_ra_check_path'' [CString path, CLong revision] w1)
                      (\<lambda>kind w2.
                         (Returned (PyInt (node_kind_code kind)), apr_pool_destroy temp_pool w2)))
           | _ \<Rightarrow> (Undefined, w)))"

subsection \<open>ra.c: \<open>get_commit_editor\<close>\<close>

text \<open>
  The loop over \<open>lock_tokens\<close>; a key that is no string leaves \<open>apr_hash_set\<close> with a
  \<open>NULL\<close> key to measure.
\<close>

fun lock_tokens_loop ::
  "(pyobj \<times> pyobj) list \<Rightarrow> (string \<times> cval) list \<Rightarrow> world \<Rightarrow> ((string \<times> cval) list \<times> world) option" where
  "lock_tokens_loop [] hash_lock_tokens w = Some (hash_lock_tokens, w)"
| "lock_tokens_loop ((k, v) # rest) hash_lock_tokens w =
     (case PyString_AsString (CObject k) w of
        Some (CString key, w1) \<Rightarrow>
          (case PyString_AsString (CObject v) w1 of
             Some (val, w2) \<Rightarrow> lock_tokens_loop rest (apr_hash_set hash_lock_tokens key val) w2
           | None \<Rightarrow> None)
      | _ \<Rightarrow> None)"

definition get_commit_editor ::
  "environ \<Rightarrow> RemoteAccessObject \<Rightarrow> pyobj list \<Rightarrow> (pyobj \<times> pyobj) list \<Rightarrow> world \<Rightarrow> ret \<times> world" where
  "get_commit_editor E ra args kwargs w =
     (case PyArg_ParseTupleAndKeywords args kwargs ''OO|Ob''
             [''revprops'', ''callback'', ''lock_tokens'', ''keep_locks'']
             [Ref ''revprops'', Ref ''commit_callback'', Ref ''lock_tokens'', Ref ''keep_locks'']
             ((uninit E)(''lock_tokens'' := CObject PyNone, ''keep_locks'' := CUChar 0)) of
        ParseUB \<Rightarrow> (Undefined, w)
      | ParseFail exc l \<Rightarrow> (ReturnedNULL, w\<lparr>pyerr := Some exc\<rparr>)
      | ParseOk l \<Rightarrow>
          (case (l ''revprops'', l ''lock_tokens'') of
             (CObject revprops, CObject lock_tokens) \<Rightarrow>
               (case Pool E (Some (ra_pool ra)) w of
                  (None, w1) \<Rightarrow> (Undefined, w1)
                | (Some temp_pool, w1) \<Rightarrow>
                    (case (if lock_tokens = PyNone then Some (CNull, w1)
                           else map_option (\<lambda>(ht, w'). (CHash ht, w'))
                                  (lock_tokens_loop (dict_items lock_tokens) [] w1)) of
                       None \<Rightarrow> (Undefined, w1)
                     | Some (hash_lock_tokens, w2) \<Rightarrow>
                         (case PyString_AsString
                                 (PyDict_GetItemString revprops SVN_PROP_REVISION_LOG) w2 of
                            None \<Rightarrow> (Undefined, w2)
                          | Some (log_msg, w3) \<Rightarrow>
                              RUN_SVN_WITH_POOL temp_pool (sv_get_commit_editor2 E)
                                (svn_ra_call E ra ''svn_ra_get_commit_editor2''
                                   [log_msg, l ''commit_callback'', hash_lock_tokens,
                                    l ''keep_locks''] w3)
                                (\<lambda>edit_baton w4.
                                   new_editor_object E edit_baton temp_pool ''Editor'' w4))))
           | _ \<Rightarrow> (Undefined, w)))"

subsection \<open>What a run shows\<close>

text \<open>
  The arguments of every call of the libsvn function \<open>name\<close> recorded so far, in order;
  and the effects of a state: its trace and its pool counter, that is everything but the
  error indicator. Two runs have the same outcome when they return the same and leave the
  same effects.
\<close>

fun svn_call_args :: "string \<Rightarrow> event \<Rightarrow> cval list option" where
  "svn_call_args name (SvnCall n cargs) = (if n = name then Some cargs else None)"
| "svn_call_args name e = None"

definition svn_calls :: "string \<Rightarrow> world \<Rightarrow> cval list list" where
  "svn_calls name w = List.map_filter (svn_call_args name) (trace w)"



text \<open>
  From the spec's words for \<open>get_dir\<close> (``a bitmask selects which per-entry fields are
  populated'': kind, size, has-properties, created-revision, modification-time,
  last-author, for the bits 0 to 5): the fields of one entry that a bitmask requests,
  with the values of the server's entry.
\<close>

definition requested_entry :: "int \<Rightarrow> svn_dirent \<Rightarrow> (pyobj \<times> pyobj) list" where
  "requested_entry requested dirent =
     (if bit requested 0 then [(PyStr ''kind'', PyInt (node_kind_code (dirent_kind dirent)))] else []) @
     (if bit requested 1 then [(PyStr ''size'', PyInt (dirent_size dirent))] else []) @
     (if bit requested 2 then [(PyStr ''has_props'', PyBool (dirent_has_props dirent))] else []) @
     (if bit requested 3 then [(PyStr ''created_rev'', PyInt (dirent_created_rev dirent))] else []) @
     (if bit requested 4 then [(PyStr ''time'', PyInt (dirent_time dirent))] else []) @
     (if bit requested 5
      then (case dirent_last_author dirent of
              None \<Rightarrow> []
            | Some author \<Rightarrow> [(PyStr ''last_author'', PyStr author)])
      else [])"

subsection \<open>A sample session\<close>

text \<open>
  A repository and a runtime to run the functions on: every Python callable returns
  \<open>None\<close>, an uninitialised variable holds 0, pools and objects can be allocated, the
  transport reports no progress. The repository has a directory \<open>trunk\<close> with one file
  from revision 1 on, denies the lock on path \<open>b\<close>, and has two log entries.
\<close>

definition sample_lock :: "string \<Rightarrow> svn_lock" where
  "sample_lock path =
     \<lparr>lock_path = path, lock_token = ''opaquelocktoken:1'', lock_owner = ''alice'',
      lock_comment = Some ''mine'', lock_is_dav_comment = False,
      lock_creation_date = 1200000000000000, lock_expiration_date = 0\<rparr>"

definition sample_log :: "log_entry list" where
  "sample_log =
     [\<lparr>log_changed_paths = None, log_revision = 1, log_author = Some ''alice'',
       log_date = Some ''2008-01-01T00:00:00.000000Z'', log_message = Some ''import''\<rparr>,
      \<lparr>log_changed_paths = None, log_revision = 2, log_author = Some ''bob'',
       log_date = Some ''2008-01-02T00:00:00.000000Z'', log_message = Some ''fix''\<rparr>]"

definition sample_environ :: environ where
  "sample_environ =
     \<lparr>python = (\<lambda>n meth args. PyReturn PyNone),
      uninit = (\<lambda>x. CLong 0),
      apr_create_status = 0,
      object_alloc_fails = False,
      progress_reports = [],
      sv_get_dir2 = (\<lambda>path revision fields.
         Inr (Some [(''README'',
                \<lparr>dirent_kind = svn_node_file, dirent_size = 120, dirent_has_props = False,
                 dirent_created_rev = 1, dirent_time = 1200000000000000,
                 dirent_last_author = Some ''alice''\<rparr>)], 2, None)),
      sv_check_path = (\<lambda>path revision.
         Inr (if path = ''trunk'' \<and> 1 \<le> revision then svn_node_dir else svn_node_none)),
      sv_get_uuid = Inr ''c2d1b1a5-0d3a-4a6e-9d3c-0242ac130003'',
      sv_lock_path = (\<lambda>path.
         if path = ''b'' then Inl (SvnError 160035 ''Path is already locked'')
         else Inr (sample_lock path)),
      sv_lock = None,
      sv_get_lock = (\<lambda>path. Inr (Some (sample_lock path))),
      sv_get_locks = (\<lambda>path. Inr [(path, sample_lock path)]),
      sv_get_log = (\<lambda>paths start end' limit. Inr sample_log),
      sv_get_commit_editor2 = Inr 0,
      sv_do_update = Inr 0,
      sv_reporter = (\<lambda>name. None),
      sv_editor = (\<lambda>name. None),
      sv_txdelta_send_stream = Inr ''0123456789abcdef''\<rparr>"

definition sample_session :: RemoteAccessObject where
  "sample_session = \<lparr>ra_url = PyStr ''svn://host/repo'', ra_pool = 0, progress_func = PyNone\<rparr>"

definition fresh_world :: world where
  "fresh_world = \<lparr>next_pool = 1, trace = [], pyerr = None\<rparr>"

section \<open>Properties\<close>

lemma and_bit_tests:
  "((f::int) AND 0x1 \<noteq> 0) = bit f 0"
  "((f::int) AND 0x2 \<noteq> 0) = bit f 1"
  "((f::int) AND 0x4 \<noteq> 0) = bit f 2"
  "((f::int) AND 0x8 \<noteq> 0) = bit f 3"
  "((f::int) AND 0x10 \<noteq> 0) = bit f 4"
  "((f::int) AND 0x20 \<noteq> 0) = bit f 5"
  using and_exp_eq_0_iff_not_bit[of f 0] and_exp_eq_0_iff_not_bit[of f 1]
    and_exp_eq_0_iff_not_bit[of f 2] and_exp_eq_0_iff_not_bit[of f 3]
    and_exp_eq_0_iff_not_bit[of f 4] and_exp_eq_0_iff_not_bit[of f 5]
  by simp_all

subsection \<open>Evaluation rules\<close>

lemmas parse_defs = PyArg_ParseTuple_def fmt_min_def fmt_max_def convert_arg_def
  INT_MAX_def LONG_MAX_def PyArg_ParseTupleAndKeywords_def kw_slots_def
lemmas build_defs = Py_BuildValue_def build_item_def long_as_int_def call_args_def
lemmas world_defs = Pool_def apr_pool_destroy_def emit_def check_error_def
  PyErr_SetSubversionException_def RUN_SVN_WITH_POOL_def svn_ra_call_def py_progress_func_def
  PyObject_CallFunction_def PyObject_CallMethod_def call_python_def py_svn_error_def
lemmas sample_defs = sample_environ_def sample_session_def fresh_world_def sample_lock_def sample_log_def

subsection \<open>Traces and pools of a call into libsvn\<close>

lemma progress_args: "call_args (Some ''ll'') [CLong a, CLong b] = Some [PyInt a, PyInt b]"
  by (simp add: call_args_def Py_BuildValue_def build_item_def)

lemma trace_py_progress_func:
  "trace (py_progress_func E a b fn w)
     = trace w @ (if fn = PyNone then [] else [PyCall fn [PyInt a, PyInt b]])"
  by (simp add: py_progress_func_def PyObject_CallFunction_def emit_def progress_args
      split: pyresult.splits)

lemma next_pool_py_progress_func: "next_pool (py_progress_func E a b fn w) = next_pool w"
  by (simp add: py_progress_func_def PyObject_CallFunction_def emit_def
      split: option.splits pyresult.splits)


lemma next_pool_progress_fold:
  "next_pool (foldl (\<lambda>v (a, b). py_progress_func E a b fn v) w rs) = next_pool w"
  by (induction rs arbitrary: w) (auto simp: next_pool_py_progress_func)


lemma svn_ra_call_next_pool: "next_pool (svn_ra_call E ra name cargs w) = next_pool w"
  by (simp add: svn_ra_call_def next_pool_progress_fold emit_def)

subsection \<open>Directory listings\<close>

lemma keys_PyDict_SetItem: "fst ` set (PyDict_SetItem d k v) = insert k (fst ` set d)"
  by (induction d k v rule: PyDict_SetItem.induct) auto

lemma keys_PyDict_SetItemString:
  "fst ` set (PyDict_SetItemString d key v) = insert (PyStr key) (fst ` set d)"
  by (simp add: PyDict_SetItemString_def keys_PyDict_SetItem)

lemma py_dirent_of_keys:
  assumes "py_dirent_of f dirent = Some e"
  shows "fst ` set e =
      (if bit f 0 then {PyStr ''kind''} else {}) \<union>
      (if bit f 1 then {PyStr ''size''} else {}) \<union>
      (if bit f 2 then {PyStr ''has_props''} else {}) \<union>
      (if bit f 3 then {PyStr ''created_rev''} else {}) \<union>
      (if bit f 4 then {PyStr ''time''} else {}) \<union>
      (if bit f 5 then {PyStr ''last_author''} else {})"
proof -
  have "\<forall>e. py_dirent_of f dirent = Some e \<longrightarrow> fst ` set e =
      (if bit f 0 then {PyStr ''kind''} else {}) \<union>
      (if bit f 1 then {PyStr ''size''} else {}) \<union>
      (if bit f 2 then {PyStr ''has_props''} else {}) \<union>
      (if bit f 3 then {PyStr ''created_rev''} else {}) \<union>
      (if bit f 4 then {PyStr ''time''} else {}) \<union>
      (if bit f 5 then {PyStr ''last_author''} else {})"
    unfolding py_dirent_of_def Let_def and_bit_tests
    by (simp add: keys_PyDict_SetItemString insert_commute split: option.splits)
  with assms show ?thesis by blast
qed

lemma PyDict_SetItem_fresh: "k \<notin> fst ` set d \<Longrightarrow> PyDict_SetItem d k v = d @ [(k, v)]"
  by (induction d k v rule: PyDict_SetItem.induct) auto

lemma py_dirent_of_requested:
  assumes "bit f 5 \<longrightarrow> dirent_last_author dirent \<noteq> None"
  shows "py_dirent_of f dirent = Some (requested_entry f dirent)"
  using assms
  unfolding py_dirent_of_def requested_entry_def Let_def and_bit_tests PyDict_SetItemString_def
  by (auto split: option.splits)

lemma py_dirent_of_no_author:
  "bit f 5 \<Longrightarrow> dirent_last_author dirent = None \<Longrightarrow> py_dirent_of f dirent = None"
  by (simp add: py_dirent_of_def Let_def and_bit_tests)

lemma py_dirents_loop_requested:
  assumes "distinct (map fst ds)"
    and "PyStr ` fst ` set ds \<inter> fst ` set acc = {}"
    and "list_all (\<lambda>(name, dirent). bit f 5 \<longrightarrow> dirent_last_author dirent \<noteq> None) ds"
  shows "py_dirents_loop f ds acc
           = Some (acc @ map (\<lambda>(name, dirent). (PyStr name, PyDict (requested_entry f dirent))) ds)"
  using assms
proof (induction ds arbitrary: acc)
  case Nil
  then show ?case by simp
next
  case (Cons nd ds)
  obtain name dirent where nd: "nd = (name, dirent)" by (cases nd)
  from Cons.prems nd have fresh: "PyStr name \<notin> fst ` set acc" by auto
  from Cons.prems nd have ok: "bit f 5 \<longrightarrow> dirent_last_author dirent \<noteq> None" by simp
  have step: "PyDict_SetItemString acc name (PyDict (requested_entry f dirent))
                = acc @ [(PyStr name, PyDict (requested_entry f dirent))]"
    by (simp add: PyDict_SetItemString_def PyDict_SetItem_fresh fresh)
  have "PyStr ` fst ` set ds \<inter> fst ` set (acc @ [(PyStr name, PyDict (requested_entry f dirent))]) = {}"
    using Cons.prems nd by auto
  with Cons.IH[of "acc @ [(PyStr name, PyDict (requested_entry f dirent))]"] Cons.prems nd
  show ?case
    by (simp add: py_dirent_of_requested[OF ok] step)
qed

lemma parse_get_dir_ok:
  assumes "CHR 0x00 \<notin> set path" "- LONG_MAX - 1 \<le> revision" "revision \<le> LONG_MAX"
    "- INT_MAX - 1 \<le> f" "f \<le> INT_MAX"
  shows "PyArg_ParseTuple [PyStr path, PyInt revision, PyInt f] ''s|li''
      [Ref ''path'', Ref ''revision'', Ref ''dirent_fields''] l
       = ParseOk (l(''path'' := CString path, ''revision'' := CLong revision,
                    ''dirent_fields'' := CInt f))"
  using assms
  by (simp add: PyArg_ParseTuple_def fmt_min_def fmt_max_def convert_arg_def)

lemma requested_entry_keys:
  assumes "bit f 5 \<longrightarrow> dirent_last_author dirent \<noteq> None"
  shows "(PyStr ''kind'' \<in> fst ` set (requested_entry f dirent)) = bit f 0
       \<and> (PyStr ''size'' \<in> fst ` set (requested_entry f dirent)) = bit f 1
       \<and> (PyStr ''has_props'' \<in> fst ` set (requested_entry f dirent)) = bit f 2
       \<and> (PyStr ''created_rev'' \<in> fst ` set (requested_entry f dirent)) = bit f 3
       \<and> (PyStr ''time'' \<in> fst ` set (requested_entry f dirent)) = bit f 4
       \<and> (PyStr ''last_author'' \<in> fst ` set (requested_entry f dirent)) = bit f 5"
  unfolding py_dirent_of_keys[OF py_dirent_of_requested[OF assms]] by simp

lemma py_dirents_loop_no_author:
  assumes "\<not> list_all (\<lambda>(name, dirent). bit f 5 \<longrightarrow> dirent_last_author dirent \<noteq> None) ds"
  shows "py_dirents_loop f ds acc = None"
  using assms
proof (induction ds arbitrary: acc)
  case Nil
  then show ?case by simp
next
  case (Cons nd ds)
  obtain name dirent where nd: "nd = (name, dirent)" by (cases nd)
  show ?case
  proof (cases "bit f 5 \<longrightarrow> dirent_last_author dirent \<noteq> None")
    case True
    with Cons.prems nd
    have "\<not> list_all (\<lambda>(name, dirent). bit f 5 \<longrightarrow> dirent_last_author dirent \<noteq> None) ds"
      by auto
    from Cons.IH[OF this] show ?thesis
      by (simp add: nd py_dirent_of_requested[OF True])
  next
    case False
    then show ?thesis by (simp add: nd py_dirent_of_no_author)
  qed
qed

text \<open>
  Claim C7. \<open>requested_entry\<close> is the entry the claim describes: each of the six fields
  of the server's dirent, under its key and with the dirent's value, exactly when its bit
  of the mask is set. For a call \<open>get_dir(path, revision, requested_fields)\<close> that the
  server answers with the table \<open>dirents\<close> (a hash table, so its names are distinct),
  \<open>ra_get_dir\<close> returns the tuple whose first component maps every name of the table
  to the requested entry of its dirent, so that a key is present exactly when its bit is
  set; with the mask \<open>0x1\<close> every entry is the kind alone. This is so whenever no dirent
  lacks an author that the mask asks for: on such a dirent \<open>PyString_FromString\<close> is
  given \<open>NULL\<close> and there is no result at all.
\<close>

theorem get_dir_populates_requested_fields:
  assumes answer: "sv_get_dir2 E path revision requested_fields = Inr (Some dirents, fetch_rev, props)"
    and names: "distinct (map fst dirents)"
    and pool: "apr_create_status E = 0"
    and path: "CHR 0x00 \<notin> set path"
    and revision: "- LONG_MAX - 1 \<le> revision" "revision \<le> LONG_MAX"
    and mask: "- INT_MAX - 1 \<le> requested_fields" "requested_fields \<le> INT_MAX"
  shows "(list_all (\<lambda>(name, dirent).
             bit requested_fields 5 \<longrightarrow> dirent_last_author dirent \<noteq> None) dirents \<longrightarrow>
           fst (ra_get_dir E ra [PyStr path, PyInt revision, PyInt requested_fields] w)
             = Returned (PyTuple
                 [PyDict (map (\<lambda>(name, dirent).
                            (PyStr name, PyDict (requested_entry requested_fields dirent))) dirents),
                  PyInt (long_as_int fetch_rev),
                  case props of
                    None \<Rightarrow> PyNone
                  | Some ps \<Rightarrow>
                      PyDict (foldl (\<lambda>d (key, val). PyDict_SetItemString d key (PyStr val)) [] ps)])
           \<and> list_all (\<lambda>(name, dirent).
                 (PyStr ''kind'' \<in> fst ` set (requested_entry requested_fields dirent))
                    = bit requested_fields 0
               \<and> (PyStr ''size'' \<in> fst ` set (requested_entry requested_fields dirent))
                    = bit requested_fields 1
               \<and> (PyStr ''has_props'' \<in> fst ` set (requested_entry requested_fields dirent))
                    = bit requested_fields 2
               \<and> (PyStr ''created_rev'' \<in> fst ` set (requested_entry requested_fields dirent))
                    = bit requested_fields 3
               \<and> (PyStr ''time'' \<in> fst ` set (requested_entry requested_fields dirent))
                    = bit requested_fields 4
               \<and> (PyStr ''last_author'' \<in> fst ` set (requested_entry requested_fields dirent))
                    = bit requested_fields 5) dirents)
    \<and> (\<not> list_all (\<lambda>(name, dirent).
             bit requested_fields 5 \<longrightarrow> dirent_last_author dirent \<noteq> None) dirents \<longrightarrow>
           fst (ra_get_dir E ra [PyStr path, PyInt revision, PyInt requested_fields] w) = Undefined)
    \<and> (requested_fields = 0x1 \<longrightarrow>
           fst (ra_get_dir E ra [PyStr path, PyInt revision, PyInt requested_fields] w)
             = Returned (PyTuple
                 [PyDict (map (\<lambda>(name, dirent).
                            (PyStr name,
                             PyDict [(PyStr ''kind'', PyInt (node_kind_code (dirent_kind dirent)))]))
                          dirents),
                  PyInt (long_as_int fetch_rev),
                  case props of
                    None \<Rightarrow> PyNone
                  | Some ps \<Rightarrow>
                      PyDict (foldl (\<lambda>d (key, val). PyDict_SetItemString d key (PyStr val)) [] ps)]))"
proof -
  let ?ok = "list_all (\<lambda>(name, dirent).
               bit requested_fields 5 \<longrightarrow> dirent_last_author dirent \<noteq> None) dirents"
  let ?result = "\<lambda>dict. Returned (PyTuple
          [PyDict dict, PyInt (long_as_int fetch_rev),
           case props of
             None \<Rightarrow> PyNone
           | Some ps \<Rightarrow>
               PyDict (foldl (\<lambda>d (key, val). PyDict_SetItemString d key (PyStr val)) [] ps)])"
  have run: "fst (ra_get_dir E ra [PyStr path, PyInt revision, PyInt requested_fields] w)
      = ?result (map (\<lambda>(name, dirent).
                        (PyStr name, PyDict (requested_entry requested_fields dirent))) dirents)"
    if authors: ?ok
  proof -
    have loop: "py_dirents_loop requested_fields dirents []
        = Some (map (\<lambda>(name, dirent).
                       (PyStr name, PyDict (requested_entry requested_fields dirent))) dirents)"
      using py_dirents_loop_requested[OF names _ authors, of "[]"] by simp
    show ?thesis
      unfolding ra_get_dir_def parse_get_dir_ok[OF path revision mask]
      using pool answer loop
      by (cases props)
         (simp_all add: Pool_def prop_hash_to_dict_def svn_ra_call_next_pool Py_BuildValue_def
            build_item_def)
  qed
  have keys: "list_all (\<lambda>(name, dirent).
          (PyStr ''kind'' \<in> fst ` set (requested_entry requested_fields dirent))
             = bit requested_fields 0
        \<and> (PyStr ''size'' \<in> fst ` set (requested_entry requested_fields dirent))
             = bit requested_fields 1
        \<and> (PyStr ''has_props'' \<in> fst ` set (requested_entry requested_fields dirent))
             = bit requested_fields 2
        \<and> (PyStr ''created_rev'' \<in> fst ` set (requested_entry requested_fields dirent))
             = bit requested_fields 3
        \<and> (PyStr ''time'' \<in> fst ` set (requested_entry requested_fields dirent))
             = bit requested_fields 4
        \<and> (PyStr ''last_author'' \<in> fst ` set (requested_entry requested_fields dirent))
             = bit requested_fields 5) dirents"
    if authors: ?ok
    unfolding list_all_iff
  proof (intro ballI)
    fix nd assume "nd \<in> set dirents"
    with authors have "bit requested_fields 5 \<longrightarrow> dirent_last_author (snd nd) \<noteq> None"
      by (auto simp: list_all_iff)
    from requested_entry_keys[OF this] show "case nd of (name, dirent) \<Rightarrow>
          (PyStr ''kind'' \<in> fst ` set (requested_entry requested_fields dirent))
             = bit requested_fields 0
        \<and> (PyStr ''size'' \<in> fst ` set (requested_entry requested_fields dirent))
             = bit requested_fields 1
        \<and> (PyStr ''has_props'' \<in> fst ` set (requested_entry requested_fields dirent))
             = bit requested_fields 2
        \<and> (PyStr ''created_rev'' \<in> fst ` set (requested_entry requested_fields dirent))
             = bit requested_fields 3
        \<and> (PyStr ''time'' \<in> fst ` set (requested_entry requested_fields dirent))
             = bit requested_fields 4
        \<and> (PyStr ''last_author'' \<in> fst ` set (requested_entry requested_fields dirent))
             = bit requested_fields 5"
      by (cases nd) simp
  qed
  have crash: "fst (ra_get_dir E ra [PyStr path, PyInt revision, PyInt requested_fields] w) = Undefined"
    if "\<not> ?ok"
    unfolding ra_get_dir_def parse_get_dir_ok[OF path revision mask]
    using pool answer py_dirents_loop_no_author[OF that, of "[]"]
    by (simp add: Pool_def)
  have one: "fst (ra_get_dir E ra [PyStr path, PyInt revision, PyInt requested_fields] w)
      = ?result (map (\<lambda>(name, dirent).
                        (PyStr name,
                         PyDict [(PyStr ''kind'', PyInt (node_kind_code (dirent_kind dirent)))]))
                     dirents)"
    if m: "requested_fields = 0x1"
  proof -
    have ok: ?ok unfolding m by (simp add: list_all_iff split: prod.splits)
    have "map (\<lambda>(name, dirent).
                 (PyStr name, PyDict (requested_entry requested_fields dirent))) dirents
        = map (\<lambda>(name, dirent).
                 (PyStr name,
                  PyDict [(PyStr ''kind'', PyInt (node_kind_code (dirent_kind dirent)))])) dirents"
      unfolding m by (simp add: requested_entry_def)
    with run[OF ok] show ?thesis by simp
  qed
  from run keys crash one show ?thesis by blast
qed

theorem get_dir_populates_requested_fields_witness:
  "fst (ra_get_dir sample_environ sample_session [PyStr ''trunk'', PyInt 2, PyInt 0x3F] fresh_world)
     = Returned (PyTuple
         [PyDict [(PyStr ''README'',
                   PyDict [(PyStr ''kind'', PyInt 1), (PyStr ''size'', PyInt 120),
                           (PyStr ''has_props'', PyBool False), (PyStr ''created_rev'', PyInt 1),
                           (PyStr ''time'', PyInt 1200000000000000),
                           (PyStr ''last_author'', PyStr ''alice'')])],
          PyInt 2, PyNone])
   \<and> fst (ra_get_dir sample_environ sample_session [PyStr ''trunk'', PyInt 2, PyInt 0x1] fresh_world)
     = Returned (PyTuple
         [PyDict [(PyStr ''README'', PyDict [(PyStr ''kind'', PyInt 1)])], PyInt 2, PyNone])
   \<and> fst (ra_get_dir
            (sample_environ\<lparr>sv_get_dir2 := (\<lambda>path revision fields.
               Inr (Some [(''README'',
                      \<lparr>dirent_kind = svn_node_file, dirent_size = 120, dirent_has_props = False,
                       dirent_created_rev = 0, dirent_time = 0,
                       dirent_last_author = None\<rparr>)], 0, None))\<rparr>)
            sample_session [PyStr ''trunk'', PyInt 0, PyInt 0x20] fresh_world)
     = Undefined"
proof -
  let ?readme = "\<lparr>dirent_kind = svn_node_file, dirent_size = 120, dirent_has_props = False,
                  dirent_created_rev = 1, dirent_time = 1200000000000000,
                  dirent_last_author = Some ''alice''\<rparr>"
  let ?orphan = "\<lparr>dirent_kind = svn_node_file, dirent_size = 120, dirent_has_props = False,
                  dirent_created_rev = 0, dirent_time = 0, dirent_last_author = None\<rparr>"
  let ?E = "sample_environ\<lparr>sv_get_dir2 := (\<lambda>path revision fields.
               Inr (Some [(''README'', ?orphan)], 0, None))\<rparr>"
  have answer: "sv_get_dir2 sample_environ ''trunk'' 2 f = Inr (Some [(''README'', ?readme)], 2, None)" for f
    by (simp add: sample_environ_def)
  have answer': "sv_get_dir2 ?E ''trunk'' 0 0x20 = Inr (Some [(''README'', ?orphan)], 0, None)"
    by simp
  have names: "distinct (map fst [(''README'', ?readme)])" "distinct (map fst [(''README'', ?orphan)])"
    by simp_all
  have authors: "list_all (\<lambda>(name, dirent). bit (0x3F :: int) 5 \<longrightarrow> dirent_last_author dirent \<noteq> None)
                   [(''README'', ?readme)]"
    by simp
  have orphan: "\<not> list_all (\<lambda>(name, dirent). bit (0x20 :: int) 5 \<longrightarrow> dirent_last_author dirent \<noteq> None)
                   [(''README'', ?orphan)]"
    by simp
  have pool: "apr_create_status sample_environ = 0" "apr_create_status ?E = 0"
    by (simp_all add: sample_environ_def)
  have path: "CHR 0x00 \<notin> set ''trunk''" by simp
  have revision: "- LONG_MAX - 1 \<le> 2" "2 \<le> LONG_MAX" "- LONG_MAX - 1 \<le> 0" "0 \<le> LONG_MAX"
    by (simp_all add: LONG_MAX_def)
  have mask: "- INT_MAX - 1 \<le> 0x3F" "0x3F \<le> INT_MAX" "- INT_MAX - 1 \<le> 0x1" "0x1 \<le> INT_MAX"
    "- INT_MAX - 1 \<le> 0x20" "0x20 \<le> INT_MAX"
    by (simp_all add: INT_MAX_def)
  have bits: "bit (0x3F :: int) 0" "bit (0x3F :: int) 1" "bit (0x3F :: int) 2"
    "bit (0x3F :: int) 3" "bit (0x3F :: int) 4" "bit (0x3F :: int) 5"
    by simp_all
  have all: "fst (ra_get_dir sample_environ sample_session [PyStr ''trunk'', PyInt 2, PyInt 0x3F] fresh_world)
     = Returned (PyTuple
         [PyDict [(PyStr ''README'',
                   PyDict [(PyStr ''kind'', PyInt 1), (PyStr ''size'', PyInt 120),
                           (PyStr ''has_props'', PyBool False), (PyStr ''created_rev'', PyInt 1),
                           (PyStr ''time'', PyInt 1200000000000000),
                           (PyStr ''last_author'', PyStr ''alice'')])],
          PyInt 2, PyNone])"
    using get_dir_populates_requested_fields
         [OF answer names(1) pool(1) path revision(1,2) mask(1,2), of sample_session fresh_world,
          THEN conjunct1] authors
    by (simp add: requested_entry_def long_as_int_def bits)
  have kind: "fst (ra_get_dir sample_environ sample_session [PyStr ''trunk'', PyInt 2, PyInt 0x1] fresh_world)
     = Returned (PyTuple
         [PyDict [(PyStr ''README'', PyDict [(PyStr ''kind'', PyInt 1)])], PyInt 2, PyNone])"
    using get_dir_populates_requested_fields
         [OF answer names(1) pool(1) path revision(1,2) mask(3,4), of sample_session fresh_world,
          THEN conjunct2, THEN conjunct2]
    by (simp add: long_as_int_def)
  have none: "fst (ra_get_dir ?E sample_session [PyStr ''trunk'', PyInt 0, PyInt 0x20] fresh_world)
     = Undefined"
    using get_dir_populates_requested_fields
         [OF answer' names(2) pool(2) path revision(3,4) mask(5,6), of sample_session fresh_world,
          THEN conjunct2, THEN conjunct1] orphan
    by blast
  from all kind none show ?thesis by (intro conjI)
qed

subsection \<open>Closing a file\<close>

text \<open>
  Claim C1 says that the file handle's \<open>close\<close> is invoked with the checksum when the
  server supplied one and without a checksum argument when it supplied none. The test in
  \<open>py_cb_editor_close_file\<close> is the other way round: for every handle and every
  checksum the server supplies, \<open>close\<close> is called with no argument, and when the server
  supplies none, \<open>close\<close> is called with the one argument \<open>None\<close>. The binding's own
  file handle (\<open>py_file_editor_close\<close>) does pass the checksum it is given on.
\<close>

theorem close_file_checksum_inverted:
  "map_option (trace \<circ> snd) (py_cb_editor_close_file E file_baton (Some checksum) w)
     = Some (trace w @ [PyMethod file_baton ''close'' []])
   \<and> map_option (trace \<circ> snd) (py_cb_editor_close_file E file_baton None w)
     = Some (trace w @ [PyMethod file_baton ''close'' [PyNone]])
   \<and> py_file_editor_close sample_environ \<lparr>editor_baton = 0, editor_pool = 1\<rparr>
        [PyStr ''9e107d9d372bb6826bd81d3542a419d6''] fresh_world
     = (Returned PyNone,
        \<lparr>next_pool = 1,
         trace = [SvnCall ''close_file'' [CLong 0, CString ''9e107d9d372bb6826bd81d3542a419d6'']],
         pyerr = None\<rparr>)"
  by (simp add: py_cb_editor_close_file_def py_file_editor_close_def PyObject_CallMethod_def
      build_defs parse_defs world_defs sample_defs split: pyresult.splits)

subsection \<open>Locking a batch of paths\<close>

lemma ra_lock_never_succeeds: "fst (ra_lock E ra args w) \<noteq> Returned v"
  by (auto simp: ra_lock_def split: parse.splits cval.splits option.splits prod.splits bool.splits)

text \<open>
  Claim C2 says that \<open>lock\<close> over N paths invokes the callback once for each path and
  returns success even when some paths fail. On three paths with integer revisions, one
  of them locked by somebody else, \<open>ra_lock\<close> hands libsvn an empty table (the value
  stored for each path is \<open>PyString_AsString\<close> of the revision, which is \<open>NULL\<close> for an
  integer), so the callback is not invoked at all, and the function returns \<open>NULL\<close>, as
  it does at its last line on every path through it.
\<close>

theorem lock_returns_failure:
  "ra_lock sample_environ sample_session
     [PyDict [(PyStr ''a'', PyInt 1), (PyStr ''b'', PyInt 2), (PyStr ''c'', PyInt 3)],
      PyStr ''comment'', PyBool False, PyUser 7] fresh_world
   = (ReturnedNULL,
      \<lparr>next_pool = 2,
       trace = [PoolCreate 1 (Some 0),
                SvnCall ''svn_ra_lock''
                  [CHash [], CString ''comment'', CByteOver 0 (uninit sample_environ ''steal_lock'')],
                PoolDestroy 1],
       pyerr = Some ''TypeError''\<rparr>)"
  by (simp add: ra_lock_def parse_defs world_defs sample_defs dict_items_def
      PyLong_AsLong_def PyString_AsString_def svn_ra_lock_def store_in_int_def)

subsection \<open>The history log\<close>

lemma ra_get_log_returns_NULL_when_parse_succeeds:
  assumes "PyArg_ParseTupleAndKeywords args kwargs ''OOll|ibbO''
             [''callback'', ''paths'', ''start'', ''end'', ''limit'',
              ''discover_changed_paths'', ''strict_node_history'', ''revprops'']
             [Ref ''callback'', Ref ''paths'', Ref ''start'', Ref ''end'', Ref ''limit'',
              Ref ''discover_changed_paths'', Ref ''strict_node_history'', Ref ''revprops'']
             ((uninit E)(''limit'' := CInt 0, ''discover_changed_paths'' := CUChar 1,
                         ''strict_node_history'' := CUChar 1, ''revprops'' := CObject PyNone))
           = ParseOk l"
  shows "ra_get_log E ra args kwargs w = (ReturnedNULL, w)"
  using assms by (simp add: ra_get_log_def)

text \<open>
  Claim C3 says that \<open>get_log\<close> with valid arguments succeeds and invokes the callback
  once for each qualifying revision. With a callback, a path list and the revisions 1
  and 10, on a repository with two log entries, \<open>ra_get_log\<close> returns \<open>NULL\<close> right
  after parsing, without creating a pool, calling libsvn or invoking the callback.
\<close>

theorem get_log_fails_on_valid_arguments:
  "ra_get_log sample_environ sample_session
     [PyUser 7, PyList [PyStr ''trunk''], PyInt 1, PyInt 10] [] fresh_world
   = (ReturnedNULL, fresh_world)"
  by (simp add: ra_get_log_def parse_defs sample_defs upt_rec)

subsection \<open>Pools\<close>

lemma released_py_progress_func: "released p (py_progress_func E a b fn w) = released p w"
  by (simp add: released_def py_progress_func_def PyObject_CallFunction_def emit_def
      split: option.splits pyresult.splits)

lemma released_progress_fold:
  "released p (foldl (\<lambda>v (a, b). py_progress_func E a b fn v) w rs) = released p w"
  by (induction rs arbitrary: w) (auto simp: released_py_progress_func)

lemma released_svn_ra_call: "released p (svn_ra_call E ra name cargs w) = released p w"
  by (simp add: svn_ra_call_def released_progress_fold) (simp add: released_def emit_def)

lemma ra_get_uuid_releases_pool_once:
  assumes "apr_create_status E = 0"
  shows "released (next_pool w) (snd (ra_get_uuid E ra w)) = Suc (released (next_pool w) w)"
proof -
  let ?w1 = "emit (PoolCreate (next_pool w) (Some (ra_pool ra))) (w\<lparr>next_pool := Suc (next_pool w)\<rparr>)"
  let ?w2 = "svn_ra_call E ra ''svn_ra_get_uuid'' [] ?w1"
  have "released (next_pool w) ?w2 = released (next_pool w) w"
    by (simp add: released_svn_ra_call) (simp add: released_def emit_def)
  moreover have "snd (ra_get_uuid E ra w) = apr_pool_destroy (next_pool w) ?w2"
    using assms
    by (cases "sv_get_uuid E")
       (simp_all add: ra_get_uuid_def Pool_def RUN_SVN_WITH_POOL_def check_error_def
          PyErr_SetSubversionException_def)
  ultimately show ?thesis
    by (simp add: released_def apr_pool_destroy_def emit_def)
qed

text \<open>
  Claim C4 says that every operation that creates a pool releases it exactly once on
  every exit path. \<open>ra_get_uuid\<close> does (lemma \<open>ra_get_uuid_releases_pool_once\<close>).
  \<open>txdelta_send_stream\<close> creates its pool before it parses its arguments and returns
  without destroying it when the parse fails: called with one argument it leaves pool 1
  created and never released. \<open>ra_do_update\<close> returns without destroying the pool, and
  without an object that would own it, when the reporter object cannot be allocated.
\<close>

theorem arena_leaked_on_early_return:
  "txdelta_send_stream sample_environ [PyUser 3] fresh_world
     = (ReturnedNULL, \<lparr>next_pool = 2, trace = [PoolCreate 1 None], pyerr = Some ''TypeError''\<rparr>)
   \<and> released 1 (snd (txdelta_send_stream sample_environ [PyUser 3] fresh_world)) = 0
   \<and> ra_do_update (sample_environ\<lparr>object_alloc_fails := True\<rparr>) sample_session
        [PyInt 2, PyStr ''trunk'', PyBool True, PyUser 5] fresh_world
     = (ReturnedNULL,
        \<lparr>next_pool = 2,
         trace = [PoolCreate 1 (Some 0),
                  SvnCall ''svn_ra_do_update''
                    [CLong 2, CString ''trunk'', CUChar 1, CObject (PyUser 5)]],
         pyerr = Some ''MemoryError''\<rparr>)"
  by (simp add: txdelta_send_stream_def ra_do_update_def parse_defs world_defs sample_defs
      released_def PyObject_New_def)

subsection \<open>The reporter\<close>

text \<open>
  Claim C5 says that the revision recorded by \<open>link_path\<close> is the revision the caller
  supplied. The parse of \<open>reporter_link_path\<close> has four targets for the format
  \<open>sslb|O\<close>, none of them \<open>revision\<close>: the caller's revision 5 is stored in
  \<open>start_empty\<close>, the flag in \<open>lock_token\<close>, and \<open>revision\<close> keeps its uninitialised
  content. With four arguments the function then reads \<open>lock_token\<close> as an object, with
  five it stores through a target that was never passed: both are undefined, and no
  entry with revision 5 is recorded. \<open>reporter_set_path\<close>, which lists
  \<open>&revision\<close>, records the revision it is given.
\<close>

theorem link_path_revision_never_parsed:
  "PyArg_ParseTuple [PyStr ''lib'', PyStr ''svn://host/repo/lib'', PyInt 5, PyBool False]
      ''sslb|O'' [Ref ''path'', Ref ''url'', Ref ''start_empty'', Ref ''lock_token'']
      ((uninit sample_environ)(''lock_token'' := CObject PyNone))
     = ParseOk ((uninit sample_environ)
         (''path'' := CString ''lib'', ''url'' := CString ''svn://host/repo/lib'',
          ''start_empty'' := CLong 5, ''lock_token'' := CUChar 0))
   \<and> reporter_link_path sample_environ \<lparr>report_baton = 0, reporter_pool = 1\<rparr>
       [PyStr ''lib'', PyStr ''svn://host/repo/lib'', PyInt 5, PyBool False] fresh_world
     = (Undefined, fresh_world)
   \<and> reporter_link_path sample_environ \<lparr>report_baton = 0, reporter_pool = 1\<rparr>
       [PyStr ''lib'', PyStr ''svn://host/repo/lib'', PyInt 5, PyBool False,
        PyStr ''opaquelocktoken:1''] fresh_world
     = (Undefined, fresh_world)
   \<and> reporter_set_path sample_environ \<lparr>report_baton = 0, reporter_pool = 1\<rparr>
       [PyStr ''lib'', PyInt 5, PyBool False] fresh_world
     = (Returned PyNone,
        \<lparr>next_pool = 1,
         trace = [SvnCall ''set_path'' [CLong 0, CString ''lib'', CLong 5, CUChar 0, CNull]],
         pyerr = None\<rparr>)"
  by (simp add: reporter_link_path_def reporter_set_path_def parse_defs world_defs sample_defs
      c_lock_token_def PyString_AsString_def fun_upd_twist)

subsection \<open>Node kinds\<close>

lemma ra_check_path_undefined:
  assumes "CHR 0x00 \<notin> set path" "- LONG_MAX - 1 \<le> revision" "revision \<le> LONG_MAX"
  shows "ra_check_path E ra [PyStr path, PyInt revision] w = (Undefined, w)"
  using assms
  by (simp add: ra_check_path_def PyArg_ParseTuple_def fmt_min_def fmt_max_def convert_arg_def)

text \<open>
  Claim C6 says that \<open>check_path(path, revision)\<close> returns the kind of the path at that
  revision. \<open>ra_check_path\<close> passes \<open>revision\<close> itself, uninitialised, where the parse
  expects its address: for a path and a revision the store goes through that value and
  the behaviour is undefined, although the repository has a directory there.
\<close>

theorem check_path_revision_never_parsed:
  "ra_check_path sample_environ sample_session [PyStr ''trunk'', PyInt 3] fresh_world
     = (Undefined, fresh_world)
   \<and> sv_check_path sample_environ ''trunk'' 3 = Inr svn_node_dir"
  by (simp add: ra_check_path_def parse_defs sample_defs)

subsection \<open>Lock values\<close>

text \<open>
  Claim C8 says that every lock value from \<open>get_lock\<close>, \<open>get_locks\<close> and the lock
  callback carries the seven attributes of a lock. \<open>pyify_lock\<close> returns \<open>None\<close> for
  every lock, so the values of \<open>get_locks\<close> and the locks given to the callback carry
  none. \<open>wrap_lock\<close> has six format units for its seven values and reads the comment
  as a byte and the flag and the creation date as strings: on a lock with a comment and
  a creation date \<open>get_lock\<close> is undefined, and on a lock without them the tuple has six
  elements and no expiration date.
\<close>

theorem locks_carry_no_attributes:
  "ra_get_locks sample_environ sample_session [PyStr ''trunk/a''] fresh_world
     = (Returned (PyDict [(PyStr ''trunk/a'', PyNone)]),
        \<lparr>next_pool = 2,
         trace = [PoolCreate 1 (Some 0), SvnCall ''svn_ra_get_locks'' [CString ''trunk/a''],
                  PoolDestroy 1],
         pyerr = None\<rparr>)
   \<and> pyify_lock lock = PyNone
   \<and> fst (ra_get_lock sample_environ sample_session [PyStr ''trunk/a''] fresh_world) = Undefined
   \<and> wrap_lock (Some ((sample_lock ''trunk/a'')\<lparr>lock_comment := None, lock_creation_date := 0\<rparr>))
     = Some (PyTuple [PyStr ''trunk/a'', PyStr ''opaquelocktoken:1'', PyStr ''alice'',
                      PyInt 0, PyNone, PyNone])"
  by (simp add: ra_get_locks_def ra_get_lock_def parse_defs world_defs sample_defs pyify_lock_def
      PyDict_SetItemString_def wrap_lock_def build_defs c_string_opt_def)

subsection \<open>The commit editor\<close>

lemma svn_calls_trace: "trace w' = trace w \<Longrightarrow> svn_calls name w' = svn_calls name w"
  by (simp add: svn_calls_def)

lemma svn_calls_emit:
  "svn_calls name (emit e w)
     = svn_calls name w @ (case svn_call_args name e of None \<Rightarrow> [] | Some cargs \<Rightarrow> [cargs])"
  by (simp add: svn_calls_def emit_def List.map_filter_def split: option.splits)

lemma svn_calls_py_progress_func:
  "svn_calls name (py_progress_func E a b fn w) = svn_calls name w"
  by (simp add: svn_calls_def trace_py_progress_func List.map_filter_def)

lemma svn_calls_progress_fold:
  "svn_calls name (foldl (\<lambda>v (a, b). py_progress_func E a b fn v) w rs) = svn_calls name w"
  by (induction rs arbitrary: w) (auto simp: svn_calls_py_progress_func)

lemma svn_calls_svn_ra_call:
  "svn_calls name (svn_ra_call E ra n cargs w)
     = svn_calls name w @ (if n = name then [cargs] else [])"
  by (simp add: svn_ra_call_def svn_calls_progress_fold svn_calls_emit)

lemma PyString_AsString_trace:
  "PyString_AsString v w = Some (s, w') \<Longrightarrow> trace w' = trace w \<and> next_pool w' = next_pool w"
  by (auto simp: PyString_AsString_def split: cval.splits pyobj.splits)

lemma lock_tokens_loop_trace:
  "lock_tokens_loop d ht w = Some (ht', w') \<Longrightarrow> trace w' = trace w \<and> next_pool w' = next_pool w"
proof (induction d ht w rule: lock_tokens_loop.induct)
  case (1 ht w)
  then show ?case by simp
next
  case (2 k v rest ht w)
  from "2.prems" obtain key w1 val w2 where
    a: "PyString_AsString (CObject k) w = Some (CString key, w1)"
    and b: "PyString_AsString (CObject v) w1 = Some (val, w2)"
    and c: "lock_tokens_loop rest (apr_hash_set ht key val) w2 = Some (ht', w')"
    by (auto split: option.splits cval.splits prod.splits)
  from "2.IH"[OF a refl refl b refl c] PyString_AsString_trace[OF a] PyString_AsString_trace[OF b]
  show ?case by simp
qed

lemma svn_calls_updates [simp]:
  "svn_calls name (w\<lparr>pyerr := e\<rparr>) = svn_calls name w"
  "svn_calls name (w\<lparr>next_pool := n\<rparr>) = svn_calls name w"
  "svn_calls name (apr_pool_destroy p w) = svn_calls name w"
  "svn_calls name (emit (PoolCreate q parent) w) = svn_calls name w"
  by (simp_all add: svn_calls_def apr_pool_destroy_def emit_def List.map_filter_def)

lemma svn_calls_new_editor_object:
  "svn_calls name (snd (new_editor_object E baton pool type w)) = svn_calls name w"
  by (simp add: new_editor_object_def PyObject_New_def)

lemma svn_calls_RUN_commit:
  "svn_calls name (snd (RUN_SVN_WITH_POOL pool cmd w
       (\<lambda>edit_baton w4. new_editor_object E edit_baton pool' type w4))) = svn_calls name w"
  by (cases cmd)
     (simp_all add: RUN_SVN_WITH_POOL_def check_error_def PyErr_SetSubversionException_def
        svn_calls_new_editor_object)

text \<open>
  Claim C9. Of the mapping \<open>revprops\<close> that \<open>get_commit_editor\<close> is given, by position
  or by keyword (\<open>l\<close> is what the parse of the arguments stored), only the entry
  \<open>svn:log\<close> reaches libsvn. When that entry is a string, the one call of
  \<open>svn_ra_get_commit_editor2\<close> receives this string as the log message, with the
  callback, the table of lock tokens and the flag, and nothing else of the mapping. When
  the mapping has no such entry, \<open>PyString_AsString\<close> is given \<open>NULL\<close>: the call is
  undefined and libsvn is not called. And two calls whose arguments differ in \<open>revprops\<close>
  only, with the same \<open>svn:log\<close> entry, return the same value and leave the same state:
  every other key is ignored.
\<close>

theorem commit_editor_forwards_only_log_message:
  assumes parsed: "PyArg_ParseTupleAndKeywords args kwargs ''OO|Ob''
             [''revprops'', ''callback'', ''lock_tokens'', ''keep_locks'']
             [Ref ''revprops'', Ref ''commit_callback'', Ref ''lock_tokens'', Ref ''keep_locks'']
             ((uninit E)(''lock_tokens'' := CObject PyNone, ''keep_locks'' := CUChar 0))
           = ParseOk l"
    and dict: "l ''revprops'' = CObject (PyDict revprops)"
  shows "(apr_create_status E = 0
          \<and> map_of revprops (PyStr SVN_PROP_REVISION_LOG) = Some (PyStr message)
          \<and> l ''lock_tokens'' = CObject lock_tokens \<longrightarrow>
          svn_calls ''svn_ra_get_commit_editor2'' (snd (get_commit_editor E ra args kwargs w))
            = svn_calls ''svn_ra_get_commit_editor2'' w @
              (case (if lock_tokens = PyNone then Some CNull
                     else map_option (\<lambda>(ht, w'). CHash ht)
                            (lock_tokens_loop (dict_items lock_tokens) []
                               (snd (Pool E (Some (ra_pool ra)) w)))) of
                 None \<Rightarrow> []
               | Some hash_lock_tokens \<Rightarrow>
                   [[CString message, l ''commit_callback'', hash_lock_tokens, l ''keep_locks'']]))
       \<and> (map_of revprops (PyStr SVN_PROP_REVISION_LOG) = None \<longrightarrow>
            fst (get_commit_editor E ra args kwargs w) = Undefined
            \<and> svn_calls ''svn_ra_get_commit_editor2'' (snd (get_commit_editor E ra args kwargs w))
                = svn_calls ''svn_ra_get_commit_editor2'' w)
       \<and> (PyArg_ParseTupleAndKeywords args' kwargs' ''OO|Ob''
             [''revprops'', ''callback'', ''lock_tokens'', ''keep_locks'']
             [Ref ''revprops'', Ref ''commit_callback'', Ref ''lock_tokens'', Ref ''keep_locks'']
             ((uninit E)(''lock_tokens'' := CObject PyNone, ''keep_locks'' := CUChar 0))
             = ParseOk (l(''revprops'' := CObject (PyDict revprops')))
           \<and> map_of revprops' (PyStr SVN_PROP_REVISION_LOG)
               = map_of revprops (PyStr SVN_PROP_REVISION_LOG) \<longrightarrow>
            get_commit_editor E ra args' kwargs' w = get_commit_editor E ra args kwargs w)"
proof (intro conjI impI)
  let ?w1 = "emit (PoolCreate (next_pool w) (Some (ra_pool ra))) (w\<lparr>next_pool := Suc (next_pool w)\<rparr>)"
  assume h: "apr_create_status E = 0
          \<and> map_of revprops (PyStr SVN_PROP_REVISION_LOG) = Some (PyStr message)
          \<and> l ''lock_tokens'' = CObject lock_tokens"
  then have st: "apr_create_status E = 0" and lt: "l ''lock_tokens'' = CObject lock_tokens"
    by simp_all
  have pool: "Pool E (Some (ra_pool ra)) w = (Some (next_pool w), ?w1)"
    using st by (simp add: Pool_def)
  have msg: "PyString_AsString (PyDict_GetItemString (PyDict revprops) SVN_PROP_REVISION_LOG) v
               = Some (CString message, v)" for v
    using h by (simp add: PyDict_GetItemString_def PyString_AsString_def)
  have main: "svn_calls ''svn_ra_get_commit_editor2'' (snd (get_commit_editor E ra args kwargs w))
            = svn_calls ''svn_ra_get_commit_editor2'' w @
              (case (if lock_tokens = PyNone then Some CNull
                     else map_option (\<lambda>(ht, w'). CHash ht)
                            (lock_tokens_loop (dict_items lock_tokens) [] ?w1)) of
                 None \<Rightarrow> []
               | Some hash_lock_tokens \<Rightarrow>
                   [[CString message, l ''commit_callback'', hash_lock_tokens, l ''keep_locks'']])"
  proof (cases "lock_tokens = PyNone")
    case True
    show ?thesis
      unfolding get_commit_editor_def parsed
      by (simp add: dict lt True pool msg) (simp add: svn_calls_RUN_commit svn_calls_svn_ra_call)
  next
    case False
    show ?thesis
    proof (cases "lock_tokens_loop (dict_items lock_tokens) [] ?w1")
      case None
      show ?thesis
        unfolding get_commit_editor_def parsed
        by (simp add: dict lt False pool None)
    next
      case (Some r)
      obtain ht w2 where r: "r = (ht, w2)" by (cases r)
      have S: "lock_tokens_loop (dict_items lock_tokens) [] ?w1 = Some (ht, w2)"
        using Some r by simp
      from lock_tokens_loop_trace[OF S]
      have w2: "svn_calls ''svn_ra_get_commit_editor2'' w2 = svn_calls ''svn_ra_get_commit_editor2'' w"
        by (simp add: svn_calls_def emit_def List.map_filter_def)
      show ?thesis
        unfolding get_commit_editor_def parsed
        by (simp add: dict lt False pool S msg)
           (simp add: svn_calls_RUN_commit svn_calls_svn_ra_call w2)
    qed
  qed
  then show "svn_calls ''svn_ra_get_commit_editor2'' (snd (get_commit_editor E ra args kwargs w))
            = svn_calls ''svn_ra_get_commit_editor2'' w @
              (case (if lock_tokens = PyNone then Some CNull
                     else map_option (\<lambda>(ht, w'). CHash ht)
                            (lock_tokens_loop (dict_items lock_tokens) []
                               (snd (Pool E (Some (ra_pool ra)) w)))) of
                 None \<Rightarrow> []
               | Some hash_lock_tokens \<Rightarrow>
                   [[CString message, l ''commit_callback'', hash_lock_tokens, l ''keep_locks'']])"
    by (simp only: pool snd_conv)
next
  let ?w1 = "emit (PoolCreate (next_pool w) (Some (ra_pool ra))) (w\<lparr>next_pool := Suc (next_pool w)\<rparr>)"
  assume none: "map_of revprops (PyStr SVN_PROP_REVISION_LOG) = None"
  have msg: "PyString_AsString (PyDict_GetItemString (PyDict revprops) SVN_PROP_REVISION_LOG) v = None"
    for v
    using none by (simp add: PyDict_GetItemString_def PyString_AsString_def)
  show "fst (get_commit_editor E ra args kwargs w) = Undefined"
    unfolding get_commit_editor_def parsed
    by (simp add: dict msg split: cval.splits prod.splits option.splits)
  show "svn_calls ''svn_ra_get_commit_editor2'' (snd (get_commit_editor E ra args kwargs w))
                = svn_calls ''svn_ra_get_commit_editor2'' w"
  proof (cases "l ''lock_tokens''")
    case (CObject lock_tokens)
    show ?thesis
    proof (cases "apr_create_status E = 0")
      case False
      then show ?thesis
        unfolding get_commit_editor_def parsed
        by (simp add: dict CObject Pool_def)
    next
      case st: True
      have pool: "Pool E (Some (ra_pool ra)) w = (Some (next_pool w), ?w1)"
        using st by (simp add: Pool_def)
      show ?thesis
      proof (cases "lock_tokens = PyNone")
        case True
        show ?thesis
          unfolding get_commit_editor_def parsed
          by (simp add: dict CObject True pool msg)
      next
        case False
        show ?thesis
        proof (cases "lock_tokens_loop (dict_items lock_tokens) [] ?w1")
          case None
          show ?thesis
            unfolding get_commit_editor_def parsed
            by (simp add: dict CObject pool False None)
        next
          case (Some r)
          obtain ht w2 where r: "r = (ht, w2)" by (cases r)
          have S: "lock_tokens_loop (dict_items lock_tokens) [] ?w1 = Some (ht, w2)"
            using Some r by simp
          from lock_tokens_loop_trace[OF S]
          have w2: "svn_calls ''svn_ra_get_commit_editor2'' w2
                      = svn_calls ''svn_ra_get_commit_editor2'' w"
            by (simp add: svn_calls_def emit_def List.map_filter_def)
          show ?thesis
            unfolding get_commit_editor_def parsed
            by (simp add: dict CObject pool False S msg w2)
        qed
      qed
    qed
  qed (simp_all add: get_commit_editor_def parsed dict)
next
  assume h: "PyArg_ParseTupleAndKeywords args' kwargs' ''OO|Ob''
             [''revprops'', ''callback'', ''lock_tokens'', ''keep_locks'']
             [Ref ''revprops'', Ref ''commit_callback'', Ref ''lock_tokens'', Ref ''keep_locks'']
             ((uninit E)(''lock_tokens'' := CObject PyNone, ''keep_locks'' := CUChar 0))
             = ParseOk (l(''revprops'' := CObject (PyDict revprops')))
           \<and> map_of revprops' (PyStr SVN_PROP_REVISION_LOG)
               = map_of revprops (PyStr SVN_PROP_REVISION_LOG)"
  then have key: "PyDict_GetItemString (PyDict revprops') SVN_PROP_REVISION_LOG
           = PyDict_GetItemString (PyDict revprops) SVN_PROP_REVISION_LOG"
    by (simp add: PyDict_GetItemString_def)
  from h have parsed': "PyArg_ParseTupleAndKeywords args' kwargs' ''OO|Ob''
             [''revprops'', ''callback'', ''lock_tokens'', ''keep_locks'']
             [Ref ''revprops'', Ref ''commit_callback'', Ref ''lock_tokens'', Ref ''keep_locks'']
             ((uninit E)(''lock_tokens'' := CObject PyNone, ''keep_locks'' := CUChar 0))
             = ParseOk (l(''revprops'' := CObject (PyDict revprops')))"
    by simp
  show "get_commit_editor E ra args' kwargs' w = get_commit_editor E ra args kwargs w"
    unfolding get_commit_editor_def parsed parsed'
    by (simp add: dict key split: cval.splits prod.splits option.splits)
qed

theorem commit_editor_forwards_only_log_message_witness:
  "svn_calls ''svn_ra_get_commit_editor2''
     (snd (get_commit_editor sample_environ sample_session []
             [(PyStr ''revprops'',
               PyDict [(PyStr ''svn:log'', PyStr ''msg''), (PyStr ''svn:author'', PyStr ''mallory'')]),
              (PyStr ''callback'', PyUser 9)] fresh_world))
     = [[CString ''msg'', CObject (PyUser 9), CNull, CUChar 0]]
   \<and> get_commit_editor sample_environ sample_session
       [PyDict [(PyStr ''svn:log'', PyStr ''msg'')], PyUser 9] [] fresh_world
     = get_commit_editor sample_environ sample_session []
         [(PyStr ''revprops'',
           PyDict [(PyStr ''svn:log'', PyStr ''msg''), (PyStr ''svn:author'', PyStr ''mallory'')]),
          (PyStr ''callback'', PyUser 9)] fresh_world
   \<and> fst (get_commit_editor sample_environ sample_session
            [PyDict [(PyStr ''svn:log'', PyStr ''msg'')], PyUser 9] [] fresh_world)
     = Returned (EditorObject ''Editor'' 0 1)"
proof -
  let ?l = "(uninit sample_environ)
              (''lock_tokens'' := CObject PyNone, ''keep_locks'' := CUChar 0,
               ''revprops'' := CObject (PyDict [(PyStr ''svn:log'', PyStr ''msg''),
                                                (PyStr ''svn:author'', PyStr ''mallory'')]),
               ''commit_callback'' := CObject (PyUser 9))"
  have parsed: "PyArg_ParseTupleAndKeywords []
             [(PyStr ''revprops'',
               PyDict [(PyStr ''svn:log'', PyStr ''msg''), (PyStr ''svn:author'', PyStr ''mallory'')]),
              (PyStr ''callback'', PyUser 9)] ''OO|Ob''
             [''revprops'', ''callback'', ''lock_tokens'', ''keep_locks'']
             [Ref ''revprops'', Ref ''commit_callback'', Ref ''lock_tokens'', Ref ''keep_locks'']
             ((uninit sample_environ)(''lock_tokens'' := CObject PyNone, ''keep_locks'' := CUChar 0))
           = ParseOk ?l"
    by (simp add: parse_defs upt_rec)
  have dict: "?l ''revprops'' = CObject (PyDict [(PyStr ''svn:log'', PyStr ''msg''),
                                                (PyStr ''svn:author'', PyStr ''mallory'')])"
    by simp
  have first: "apr_create_status sample_environ = 0
          \<and> map_of [(PyStr ''svn:log'', PyStr ''msg''), (PyStr ''svn:author'', PyStr ''mallory'')]
               (PyStr SVN_PROP_REVISION_LOG) = Some (PyStr ''msg'')
          \<and> ?l ''lock_tokens'' = CObject PyNone"
    by (simp add: sample_environ_def SVN_PROP_REVISION_LOG_def)
  have other: "PyArg_ParseTupleAndKeywords [PyDict [(PyStr ''svn:log'', PyStr ''msg'')], PyUser 9] []
             ''OO|Ob''
             [''revprops'', ''callback'', ''lock_tokens'', ''keep_locks'']
             [Ref ''revprops'', Ref ''commit_callback'', Ref ''lock_tokens'', Ref ''keep_locks'']
             ((uninit sample_environ)(''lock_tokens'' := CObject PyNone, ''keep_locks'' := CUChar 0))
             = ParseOk (?l(''revprops'' := CObject (PyDict [(PyStr ''svn:log'', PyStr ''msg'')])))
           \<and> map_of [(PyStr ''svn:log'', PyStr ''msg'')] (PyStr SVN_PROP_REVISION_LOG)
               = map_of [(PyStr ''svn:log'', PyStr ''msg''), (PyStr ''svn:author'', PyStr ''mallory'')]
                   (PyStr SVN_PROP_REVISION_LOG)"
    by (simp add: parse_defs upt_rec SVN_PROP_REVISION_LOG_def fun_upd_twist)
  have run: "fst (get_commit_editor sample_environ sample_session
            [PyDict [(PyStr ''svn:log'', PyStr ''msg'')], PyUser 9] [] fresh_world)
     = Returned (EditorObject ''Editor'' 0 1)"
    by (simp add: get_commit_editor_def parse_defs world_defs sample_defs upt_rec
        PyDict_GetItemString_def PyString_AsString_def SVN_PROP_REVISION_LOG_def
        new_editor_object_def PyObject_New_def)
  note inst = commit_editor_forwards_only_log_message [OF parsed dict,
      where message = "''msg''" and lock_tokens = PyNone and ra = sample_session
        and w = fresh_world
        and args' = "[PyDict [(PyStr ''svn:log'', PyStr ''msg'')], PyUser 9]" and kwargs' = "[]"
        and revprops' = "[(PyStr ''svn:log'', PyStr ''msg'')]"]
  from inst first have
    "svn_calls ''svn_ra_get_commit_editor2''
     (snd (get_commit_editor sample_environ sample_session []
             [(PyStr ''revprops'',
               PyDict [(PyStr ''svn:log'', PyStr ''msg''), (PyStr ''svn:author'', PyStr ''mallory'')]),
              (PyStr ''callback'', PyUser 9)] fresh_world))
     = [[CString ''msg'', CObject (PyUser 9), CNull, CUChar 0]]"
    by (simp add: svn_calls_def fresh_world_def)
  moreover from inst other have
    "get_commit_editor sample_environ sample_session
       [PyDict [(PyStr ''svn:log'', PyStr ''msg'')], PyUser 9] [] fresh_world
     = get_commit_editor sample_environ sample_session []
         [(PyStr ''revprops'',
           PyDict [(PyStr ''svn:log'', PyStr ''msg''), (PyStr ''svn:author'', PyStr ''mallory'')]),
          (PyStr ''callback'', PyUser 9)] fresh_world"
    by blast
  ultimately show ?thesis using run by blast
qed

subsection \<open>The progress callback\<close>





















end
